theory Spec2Isabelle
  imports Main "HOL-Library.Sublist" "HOL-Library.Multiset"
begin

section \<open>Text and scalar values of the Python program\<close>

text \<open>
  A Python \<open>str\<close> is a sequence of Unicode code points; titles and labels of
  \<open>app.py\<close> are Japanese, so a string is modelled as the list of its code points.
\<close>

type_synonym ustr = "nat list"

definition ascii :: "string \<Rightarrow> ustr" where
  "ascii s = map of_char s"

text \<open>
  The class \<open>\d\<close> of \<open>re\<close> on a \<open>str\<close> pattern is the Unicode category Nd, and
  \<open>int()\<close> reads the same characters by their decimal value. In the Unicode
  database of CPython 3.11 (14.0) the category is 66 blocks of ten consecutive code
  points standing for 0 to 9; the table lists the first code point of each block
  (48 is ASCII \<open>0\<close>, 65296 the full-width zero).
\<close>

definition decimal_blocks :: "nat list" where
  "decimal_blocks =
    [48, 1632, 1776, 1984, 2406, 2534, 2662, 2790, 2918, 3046, 3174, 3302, 3430, 3558,
     3664, 3792, 3872, 4160, 4240, 6112, 6160, 6470, 6608, 6784, 6800, 6992, 7088, 7232,
     7248, 42528, 43216, 43264, 43472, 43504, 43600, 44016, 65296, 66720, 68912, 69734,
     69872, 69942, 70096, 70384, 70736, 70864, 71248, 71360, 71472, 71904, 72016, 72784,
     73040, 73120, 92768, 92864, 93008, 120782, 120792, 120802, 120812, 120822, 123200,
     123632, 125264, 130032]"

definition todecimal :: "nat \<Rightarrow> nat option" where
  "todecimal c =
     (case find (\<lambda>z. z \<le> c \<and> c < z + 10) decimal_blocks of
        None \<Rightarrow> None
      | Some z \<Rightarrow> Some (c - z))"

definition is_decimal :: "nat \<Rightarrow> bool" where
  "is_decimal c = (todecimal c \<noteq> None)"

definition is_ascii_digit :: "nat \<Rightarrow> bool" where
  "is_ascii_digit c = (48 \<le> c \<and> c \<le> 57)"

text \<open>The literal \<open>saikarano\<close> ("years old, onward") that ends both title patterns.\<close>

definition kara_suffix :: ustr where
  "kara_suffix = [27507, 12363, 12425, 12398]"

text \<open>The character class of pattern 2: the kanji numerals one to nine, ten and hundred.\<close>

definition kanji_numerals :: "nat list" where
  "kanji_numerals =
     [19968, 20108, 19977, 22235, 20116, 20845, 19971, 20843, 20061, 21313, 30334]"

definition is_kanji_numeral :: "nat \<Rightarrow> bool" where
  "is_kanji_numeral c = (c \<in> set kanji_numerals)"

text \<open>The decade suffix \<open>nendai\<close> of \<open>extract_decade\<close>.\<close>

definition decade_suffix :: ustr where
  "decade_suffix = [24180, 20195]"

text \<open>\<open>str(n)\<close> of an integer: its decimal digits, with a minus sign when negative.\<close>

fun digits_of_nat :: "nat \<Rightarrow> ustr" where
  "digits_of_nat n =
     (if n < 10 then [48 + n] else digits_of_nat (n div 10) @ [48 + n mod 10])"

definition py_str_int :: "int \<Rightarrow> ustr" where
  "py_str_int i = (if i < 0 then 45 # digits_of_nat (nat (- i)) else digits_of_nat (nat i))"

text \<open>
  A cell of the data frame. \<open>get_all_records\<close> delivers strings and numbers, pandas
  adds \<open>None\<close> and \<open>NaN\<close>. \<open>PObj b s\<close> is any other scalar that is not missing (a
  float, a bool), known by its truth value \<open>b\<close> and its \<open>str()\<close> text \<open>s\<close>.
\<close>

datatype pyval = PNone | PNaN | PStr ustr | PInt int | PObj bool ustr

text \<open>\<open>not v\<close>, \<open>pd.isna(v)\<close> and \<open>str(v)\<close>.\<close>

fun py_not :: "pyval \<Rightarrow> bool" where
  "py_not PNone = True"
| "py_not PNaN = False"
| "py_not (PStr s) = (s = [])"
| "py_not (PInt i) = (i = 0)"
| "py_not (PObj b s) = (\<not> b)"

fun pd_isna :: "pyval \<Rightarrow> bool" where
  "pd_isna PNone = True"
| "pd_isna PNaN = True"
| "pd_isna v = False"

fun py_str :: "pyval \<Rightarrow> ustr" where
  "py_str PNone = ascii ''None''"
| "py_str PNaN = ascii ''nan''"
| "py_str (PStr s) = s"
| "py_str (PInt i) = py_str_int i"
| "py_str (PObj b s) = s"

text \<open>
  An exception is known to the program only through \<open>str(e)\<close>, so it is modelled by
  its message.
\<close>

datatype exn = Exn ustr

text \<open>
  \<open>int(s)\<close> on the text of a regex group of decimal digits: the digits are read in
  base ten by their Unicode decimal value. CPython (3.11, and the releases that
  took the change) refuses a text of more than \<open>sys.get_int_max_str_digits()\<close>
  digits, 4300 unless the program changes it, which \<open>app.py\<close> does not: every
  digit counts, leading zeros too, and the call raises a \<open>ValueError\<close>. Any text
  that is not a run of digits is a \<open>ValueError\<close> here (signs, blanks and
  underscores, which \<open>int\<close> also reads, never reach it from \<open>\d+\<close>).
\<close>

definition digit_val :: "nat \<Rightarrow> int" where
  "digit_val c = (case todecimal c of None \<Rightarrow> 0 | Some d \<Rightarrow> int d)"

definition decimal_value :: "ustr \<Rightarrow> int" where
  "decimal_value s = foldl (\<lambda>acc c. 10 * acc + digit_val c) 0 s"

definition int_max_str_digits :: nat where
  "int_max_str_digits = 4300"

definition py_int :: "ustr \<Rightarrow> exn + int" where
  "py_int s =
     (if s \<noteq> [] \<and> list_all is_decimal s then
        (if int_max_str_digits < length s
         then Inl (Exn (ascii ''Exceeds the limit (4300 digits) for integer string conversion: value has '' @
                py_str_int (int (length s)) @
                ascii '' digits; use sys.set_int_max_str_digits() to increase the limit''))
         else Inr (decimal_value s))
      else Inl (Exn (ascii ''invalid literal for int() with base 10'')))"

section \<open>The regular expressions\<close>

text \<open>
  \<open>re.search(r'(C+)LIT', s)\<close> for a character class \<open>C\<close> and a literal \<open>LIT\<close>: the
  engine tries the start positions from left to right; at a position it takes the
  longest run of class characters and gives characters back one at a time until the
  literal follows. The result is group 1 of the first match.
\<close>

fun backoff :: "ustr \<Rightarrow> nat \<Rightarrow> ustr \<Rightarrow> ustr option" where
  "backoff lit 0 s = None"
| "backoff lit (Suc k) s =
     (if prefix lit (drop (Suc k) s) then Some (take (Suc k) s) else backoff lit k s)"

definition match_run_at :: "(nat \<Rightarrow> bool) \<Rightarrow> ustr \<Rightarrow> ustr \<Rightarrow> ustr option" where
  "match_run_at cls lit s = backoff lit (length (takeWhile cls s)) s"

fun search_run :: "(nat \<Rightarrow> bool) \<Rightarrow> ustr \<Rightarrow> ustr \<Rightarrow> ustr option" where
  "search_run cls lit [] = None"
| "search_run cls lit (c # s) =
     (case match_run_at cls lit (c # s) of
        Some g \<Rightarrow> Some g
      | None \<Rightarrow> search_run cls lit s)"

text \<open>\<open>re.search(r'(\d{4})', s)\<close>: the first position followed by four decimal digits.\<close>

fun search_year :: "ustr \<Rightarrow> ustr option" where
  "search_year [] = None"
| "search_year (c # s) =
     (if 4 \<le> length (c # s) \<and> list_all is_decimal (take 4 (c # s))
      then Some (take 4 (c # s)) else search_year s)"

section \<open>The extractors of \<open>app.py\<close>\<close>

text \<open>
  \<open>is_kara_pattern\<close> (lines 25 to 39). The body of the \<open>try\<close> raises nothing in this
  model, so the handler's \<open>pass\<close> has no branch of its own.
\<close>

definition is_kara_pattern :: "pyval \<Rightarrow> bool" where
  "is_kara_pattern title =
     (if py_not title \<or> pd_isna title then False
      else (let title_str = py_str title in
        if search_run is_decimal kara_suffix title_str \<noteq> None then True
        else if search_run is_kanji_numeral kara_suffix title_str \<noteq> None then True
        else False))"

text \<open>
  \<open>extract_age\<close> (lines 41 to 58). \<open>kanji2number\<close> belongs to the library
  \<open>kanjize\<close>, whose code is not part of the repository: it is a parameter, a
  function that returns an integer or raises. An exception of \<open>int\<close> or of
  \<open>kanji2number\<close> is caught by \<open>except Exception: pass\<close> and the function returns
  \<open>None\<close>.
\<close>

definition extract_age :: "(ustr \<Rightarrow> exn + int) \<Rightarrow> pyval \<Rightarrow> int option" where
  "extract_age kanji2number title =
     (if py_not title \<or> pd_isna title then None
      else (let title_str = py_str title in
        case search_run is_decimal kara_suffix title_str of
          Some g \<Rightarrow> (case py_int g of Inr n \<Rightarrow> Some n | Inl e \<Rightarrow> None)
        | None \<Rightarrow>
           (case search_run is_kanji_numeral kara_suffix title_str of
              Some g \<Rightarrow> (case kanji2number g of Inr n \<Rightarrow> Some n | Inl e \<Rightarrow> None)
            | None \<Rightarrow> None)))"

text \<open>\<open>extract_decade\<close> (lines 60 to 75): the label is \<open>str(decade)\<close> and the suffix.\<close>

definition extract_decade :: "pyval \<Rightarrow> ustr option" where
  "extract_decade publish_date =
     (if py_not publish_date \<or> pd_isna publish_date then None
      else (let date_str = py_str publish_date in
        case search_year date_str of
          Some g \<Rightarrow>
            (case py_int g of
               Inr year \<Rightarrow> (let decade = (year div 10) * 10 in Some (py_str_int decade @ decade_suffix))
             | Inl e \<Rightarrow> None)
        | None \<Rightarrow> None))"

section \<open>Filtering and enrichment (main block, lines 272 to 277 and 302)\<close>

record raw_record =
  title :: pyval
  publish_date :: pyval

record enriched_record =
  source :: raw_record
  target_age :: "int option"

text \<open>
  Line 277 builds the age column with \<open>Series.apply\<close>, and pandas chooses the
  number type of the column from the values it is given. pandas is not code of
  the repository, so this conversion is a parameter: a function from the list of
  extracted ages to the column, which may raise. A stored age is the integer that
  the stored number denotes (a float that stands for an integer of this size is
  an integer), and a missing value (\<open>None\<close> or \<open>NaN\<close>) is \<open>None\<close>.

  What the model takes of pandas, as \<open>column_ok\<close>:
  \<^item> when the conversion returns, the column has the length of its input, a
    missing age stays missing, a present age stays present, an age that is not
    negative stays so, and an age of absolute value at most \<open>2^53\<close> is stored
    exactly;
  \<^item> when every age is in the range of \<open>int64\<close>, the conversion returns: the
    column is \<open>int64\<close> and exact when no age is missing, and \<open>float64\<close> when one
    is, each age rounded to the nearest double (ties to even).
\<close>

function bit_length :: "int \<Rightarrow> nat" where
  "bit_length n = (if n \<le> 0 then 0 else Suc (bit_length (n div 2)))"
  by pat_completeness auto
termination
  by (relation "measure nat") auto

definition round_to_53_bits :: "int \<Rightarrow> int" where
  "round_to_53_bits n =
     (if n < 2 ^ 53 then n
      else (let e = bit_length n - 53; q = n div 2 ^ e; r = n mod 2 ^ e; h = 2 ^ (e - 1)
            in (if r < h \<or> (r = h \<and> even q) then q else q + 1) * 2 ^ e))"

definition nearest_double :: "int \<Rightarrow> int" where
  "nearest_double v = (if v < 0 then - round_to_53_bits (- v) else round_to_53_bits v)"

definition int64_range :: "int \<Rightarrow> bool" where
  "int64_range v = (- (2 ^ 63) \<le> v \<and> v < 2 ^ 63)"

definition in_int64 :: "int option \<Rightarrow> bool" where
  "in_int64 a = (case a of None \<Rightarrow> True | Some v \<Rightarrow> int64_range v)"

definition stored_as :: "int option \<Rightarrow> int option \<Rightarrow> bool" where
  "stored_as a c =
     (case a of
        None \<Rightarrow> c = None
      | Some v \<Rightarrow> (\<exists>w. c = Some w \<and> (0 \<le> v \<longrightarrow> 0 \<le> w) \<and> (\<bar>v\<bar> \<le> 2 ^ 53 \<longrightarrow> w = v)))"

definition column_ok :: "(int option list \<Rightarrow> exn + int option list) \<Rightarrow> bool" where
  "column_ok to_column =
     ((\<forall>raw col. to_column raw = Inr col \<longrightarrow> list_all2 stored_as raw col) \<and>
      (\<forall>raw. list_all in_int64 raw \<longrightarrow>
         to_column raw =
           Inr (if None \<in> set raw then map (map_option nearest_double) raw else raw)))"

text \<open>
  A conversion for the instances below: it does what \<open>column_ok\<close> says in the
  range of \<open>int64\<close>, and keeps the integers as they are outside it.
\<close>

definition sample_column :: "int option list \<Rightarrow> exn + int option list" where
  "sample_column raw =
     Inr (if list_all in_int64 raw \<and> None \<in> set raw
          then map (map_option nearest_double) raw else raw)"

text \<open>
  \<open>df = df[df[COL_TITLE].apply(is_kara_pattern)].copy()\<close> keeps the rows whose title
  matches, in their order; \<open>df["target_age"] = df[COL_TITLE].apply(extract_age)\<close>
  attaches the column of the extracted ages to them. Both lines stand under
  \<open>if COL_TITLE in df.columns\<close>; a record of the model has a title, so the model is
  that branch. An exception of the conversion is not caught: it leaves the block.
\<close>

definition filter_and_enrich ::
  "(ustr \<Rightarrow> exn + int) \<Rightarrow> (int option list \<Rightarrow> exn + int option list) \<Rightarrow> raw_record list \<Rightarrow>
   exn + enriched_record list" where
  "filter_and_enrich kanji2number to_column df =
     (let kept = filter (\<lambda>r. is_kara_pattern (title r)) df in
      case to_column (map (\<lambda>r. extract_age kanji2number (title r)) kept) of
        Inl e \<Rightarrow> Inl e
      | Inr col \<Rightarrow> Inr (map (\<lambda>(r, a). \<lparr>source = r, target_age = a\<rparr>) (zip kept col)))"

text \<open>\<open>df_with_age = df[df["target_age"].notna()].copy()\<close> (lines 302 and 407).\<close>

definition with_age :: "enriched_record list \<Rightarrow> enriched_record list" where
  "with_age df = filter (\<lambda>r. target_age r \<noteq> None) df"

text \<open>
  Modelled from the spec: \<open>kanji2number\<close> of the library \<open>kanjize\<close>, which
  \<open>extract_age\<close> calls and the repository does not hold (section 4.1,
  NumeralParser). The vocabulary that the pattern lets through is the digits one
  to nine and the place values ten and hundred. A digit right before a place
  value multiplies it, a place value with no digit before it counts once, and the
  groups are summed; the text is read as a hundreds group, a tens group and a
  unit, in this order and each at most once. An empty text, a character outside
  the vocabulary and anything left over are malformed input, which fails with a
  parse error and never returns 0.
\<close>

definition kanji_digit :: "nat \<Rightarrow> nat option" where
  "kanji_digit c =
     map_of [(19968, 1), (20108, 2), (19977, 3), (22235, 4), (20116, 5), (20845, 6),
             (19971, 7), (20843, 8), (20061, 9)] c"

definition take_group :: "nat \<Rightarrow> ustr \<Rightarrow> nat \<times> ustr" where
  "take_group place s =
     (case s of
        [] \<Rightarrow> (0, [])
      | c # rest \<Rightarrow>
          if c = place then (1, rest)
          else (case kanji_digit c of
                  None \<Rightarrow> (0, s)
                | Some d \<Rightarrow>
                    (case rest of
                       [] \<Rightarrow> (0, s)
                     | p # rest' \<Rightarrow> if p = place then (d, rest') else (0, s))))"

definition take_unit :: "ustr \<Rightarrow> nat \<times> ustr" where
  "take_unit s =
     (case s of
        [] \<Rightarrow> (0, [])
      | c # rest \<Rightarrow> (case kanji_digit c of None \<Rightarrow> (0, s) | Some d \<Rightarrow> (d, rest)))"

definition kanjize_kanji2number :: "ustr \<Rightarrow> exn + int" where
  "kanjize_kanji2number s =
     (if s = [] then Inl (Exn (ascii ''empty numeral''))
      else (let (h, s1) = take_group 30334 s;
                (t, s2) = take_group 21313 s1;
                (u, s3) = take_unit s2
            in if s3 = [] then Inr (int (100 * h + 10 * t + u))
               else Inl (Exn (ascii ''malformed numeral''))))"

section \<open>The literal texts of the source\<close>

text \<open>
  The fixed text of the prompt template (lines 188 to 221), cut at its
  placeholders: each piece is the text that stands before the placeholder it is
  named after, and the last piece is the outline that precedes the style clause.
\<close>

definition prompt_intro :: ustr where
  "prompt_intro =
    [20197, 19979, 12398, 24180, 40802, 21029, 26360, 31821, 25968, 12398, 32113, 35336,
     12487, 12540, 12479, 12434, 20998, 26512, 12375, 12390, 12289, 32771, 23519, 35352,
     20107, 12434, 26360, 12356, 12390, 12367, 12384, 12373, 12356, 12290, 10, 29305,
     12395, 12289, 12300, 12394, 12380, 12381, 12398, 12424, 12358, 12394, 20986, 29256,
     20670, 21521, 12395, 12394, 12387, 12390, 12356, 12427, 12398, 12363, 12301, 12392,
     12356, 12358, 21407, 22240, 12420, 32972, 26223, 12434, 28145, 12367, 32771, 23519,
     12377, 12427, 12371, 12392, 12364, 37325, 35201, 12391, 12377, 12290, 10, 10, 12304,
     32113, 35336, 12487, 12540, 12479, 12305, 10, 45, 32, 32207, 26360, 31821, 25968,
     58, 32]"

definition prompt_mean :: ustr where
  "prompt_mean =
    [20874, 10, 45, 32, 24179, 22343, 23550, 35937, 24180, 40802, 58, 32]"

definition prompt_min :: ustr where
  "prompt_min =
    [27507, 10, 45, 32, 26368, 23567, 24180, 40802, 58, 32]"

definition prompt_max :: ustr where
  "prompt_max =
    [27507, 10, 45, 32, 26368, 22823, 24180, 40802, 58, 32]"

definition prompt_median :: ustr where
  "prompt_median =
    [27507, 10, 45, 32, 20013, 22830, 20516, 24180, 40802, 58, 32]"

definition prompt_peak :: ustr where
  "prompt_peak =
    [27507, 10, 45, 32, 12500, 12540, 12463, 24180, 40802, 58, 32]"

definition prompt_peak_count :: ustr where
  "prompt_peak_count =
    [27507, 65288, 26360, 31821, 25968, 58, 32]"

definition prompt_top :: ustr where
  "prompt_top =
    [20874, 65289, 10, 10, 12304, 24180, 40802, 21029, 26360, 31821, 25968, 65288, 19978,
     20301, 49, 48, 20301, 65289, 12305, 10]"

definition prompt_bands :: ustr where
  "prompt_bands =
    [10, 10, 12304, 24180, 40802, 24111, 21029, 26360, 31821, 25968, 12305, 10]"

definition prompt_decades :: ustr where
  "prompt_decades =
    [10, 10, 12304, 24180, 20195, 21029, 26360, 31821, 25968, 12305, 10]"

definition prompt_outline :: ustr where
  "prompt_outline =
    [10, 10, 20197, 19979, 12398, 27083, 25104, 12391, 12289, 56, 48, 48, 45, 49, 48, 48,
     48, 25991, 23383, 31243, 24230, 12398, 32771, 23519, 35352, 20107, 12434, 26360,
     12356, 12390, 12367, 12384, 12373, 12356, 65306, 10, 49, 46, 32, 23566, 20837,
     65288, 12487, 12540, 12479, 12398, 27010, 35201, 12392, 20027, 35201, 12394, 20670,
     21521, 65289, 10, 50, 46, 32, 24180, 40802, 20998, 24067, 12398, 29305, 24500,
     12392, 12381, 12398, 32972, 26223, 10, 32, 32, 32, 45, 32, 29305, 23450, 12398,
     24180, 40802, 23652, 12395, 26360, 31821, 12364, 38598, 20013, 12375, 12390, 12356,
     12427, 29702, 30001, 10, 32, 32, 32, 45, 32, 31038, 20250, 30340, 12539, 25991,
     21270, 30340, 12394, 32972, 26223, 12398, 32771, 23519, 10, 51, 46, 32, 24180,
     20195, 21029, 12398, 20670, 21521, 12392, 12381, 12398, 32972, 26223, 65288, 12487,
     12540, 12479, 12364, 12354, 12427, 22580, 21512, 65289, 10, 32, 32, 32, 45, 32,
     26178, 20195, 12398, 22793, 21270, 12364, 20986, 29256, 20670, 21521, 12395, 19982,
     12360, 12383, 24433, 38911, 10, 53, 46, 32, 32207, 21512, 30340, 12394, 32771,
     23519, 12392, 12414, 12392, 12417, 10, 32, 32, 32, 45, 32, 12394, 12380, 12371,
     12398, 12424, 12358, 12394, 20986, 29256, 20670, 21521, 12364, 29983, 12414, 12428,
     12383, 12398, 12363, 10, 32, 32, 32, 45, 32, 31038, 20250, 32972, 26223, 12289,
     24066, 22580, 12491, 12540, 12474, 12289, 25991, 21270, 30340, 35201, 22240, 12394,
     12393, 12398, 22810, 35282, 30340, 12394, 20998, 26512, 10, 10, 35352, 20107, 12399,
     35501, 12415, 12420, 12377, 12367, 12289, 12487, 12540, 12479, 12395, 22522, 12389,
     12356, 12383, 20855, 20307, 30340, 12394, 20998, 26512, 12434, 21547, 12417, 12390,
     12367, 12384, 12373, 12356, 12290, 10, 29305, 12395, 12289, 21336, 12395, 12300,
     12393, 12398, 12424, 12358, 12394, 20670, 21521, 12364, 12354, 12427, 12363, 12301,
     12434, 36848, 12409, 12427, 12384, 12369, 12391, 12394, 12367, 12289, 12300, 12394,
     12380, 12381, 12398, 12424, 12358, 12394, 20670, 21521, 12395, 12394, 12387, 12390,
     12356, 12427, 12398, 12363, 12301, 12392, 12356, 12358, 21407, 22240, 12420, 32972,
     26223, 12434, 28145, 12367, 32771, 23519, 12377, 12427, 12371, 12392, 12364, 37325,
     35201, 12391, 12377, 12290, 10, 12414, 12383, 12289]"

text \<open>The two fixed pieces of \<open>user_insights_section\<close> (lines 180 to 185).\<close>

definition insights_head :: ustr where
  "insights_head =
    [10, 10, 12304, 12518, 12540, 12470, 12540, 12398, 27671, 12389, 12365, 12539, 35251,
     23519, 12305, 10]"

definition insights_tail :: ustr where
  "insights_tail =
    [10, 10, 19978, 35352, 12398, 12518, 12540, 12470, 12540, 12398, 27671, 12389, 12365,
     12420, 35251, 23519, 12418, 36367, 12414, 12360, 12390, 12289, 32771, 23519, 35352,
     20107, 12395, 21453, 26144, 12375, 12390, 12367, 12384, 12373, 12356, 12290]"

text \<open>The text shown when there is no decade table, and the default of the peak age.\<close>

definition no_data :: ustr where
  "no_data =
    [12487, 12540, 12479, 12394, 12375]"

definition not_available :: ustr where
  "not_available =
    [78, 47, 65]"

text \<open>The text that the handler of line 230 puts before \<open>str(e)\<close>.\<close>

definition error_prefix :: ustr where
  "error_prefix =
    [35352, 20107, 12398, 29983, 25104, 20013, 12395, 12456, 12521, 12540, 12364, 30330,
     29983, 12375, 12414, 12375, 12383, 58, 32]"

text \<open>The message of line 161, returned when no API key is found.\<close>

definition no_key_message :: ustr where
  "no_key_message =
    [71, 101, 109, 105, 110, 105, 32, 65, 80, 73, 12461, 12540, 12364, 35211, 12388,
     12363, 12426, 12414, 12379, 12435, 12290, 83, 116, 114, 101, 97, 109, 108, 105, 116,
     32, 67, 108, 111, 117, 100, 12398, 83, 101, 99, 114, 101, 116, 115, 12395, 39, 91,
     103, 101, 109, 105, 110, 105, 93, 39, 12475, 12463, 12471, 12519, 12531, 20869,
     12395, 39, 97, 112, 105, 95, 107, 101, 121, 32, 61, 32, 34, 89, 79, 85, 82, 95, 65,
     80, 73, 95, 75, 69, 89, 34, 39, 12434, 35373, 23450, 12375, 12390, 12367, 12384,
     12373, 12356, 12290]"

text \<open>The keys and the values of \<open>style_instructions\<close> (lines 168 to 174).\<close>

definition style_standard :: ustr where
  "style_standard =
    [27161, 28310, 30340]"

definition instruction_standard :: ustr where
  "instruction_standard =
    [23458, 35251, 30340, 12391, 35501, 12415, 12420, 12377, 12356, 27161, 28310, 30340,
     12394, 25991, 20307, 12391, 26360, 12356, 12390, 12367, 12384, 12373, 12356, 12290]"

definition style_critical :: ustr where
  "style_critical =
    [35413, 35542, 30340]"

definition instruction_critical :: ustr where
  "instruction_critical =
    [25209, 21028, 30340, 12363, 12388, 20998, 26512, 30340, 12394, 35222, 28857, 12391,
     12289, 12487, 12540, 12479, 12398, 24847, 21619, 12434, 28145, 12367, 32771, 23519,
     12377, 12427, 35413, 35542, 30340, 12394, 25991, 20307, 12391, 26360, 12356, 12390,
     12367, 12384, 12373, 12356, 12290]"

definition style_poetic :: ustr where
  "style_poetic =
    [35433, 30340]"

definition instruction_poetic :: ustr where
  "instruction_poetic =
    [27604, 21929, 12420, 12452, 12513, 12540, 12472, 12434, 22810, 29992, 12375, 12289,
     25991, 23398, 30340, 12391, 35433, 30340, 12394, 34920, 29694, 12434, 29992, 12356,
     12383, 25991, 20307, 12391, 26360, 12356, 12390, 12367, 12384, 12373, 12356, 12290]"

definition style_academic :: ustr where
  "style_academic =
    [23398, 34899, 30340]"

definition instruction_academic :: ustr where
  "instruction_academic =
    [23398, 34899, 35542, 25991, 12398, 12424, 12358, 12394, 24418, 24335, 12391, 12289,
     23554, 38272, 29992, 35486, 12434, 20351, 12356, 12289, 35542, 29702, 30340, 12395,
     20998, 26512, 12377, 12427, 25991, 20307, 12391, 26360, 12356, 12390, 12367, 12384,
     12373, 12356, 12290]"

definition style_approachable :: ustr where
  "style_approachable =
    [35242, 12375, 12415, 12420, 12377, 12356]"

definition instruction_approachable :: ustr where
  "instruction_approachable =
    [35501, 32773, 12395, 35486, 12426, 12363, 12369, 12427, 12424, 12358, 12394, 35242,
     12375, 12415, 12420, 12377, 12356, 21475, 35519, 12391, 12289, 12431, 12363, 12426,
     12420, 12377, 12367, 35500, 26126, 12377, 12427, 25991, 20307, 12391, 26360, 12356,
     12390, 12367, 12384, 12373, 12356, 12290]"

text \<open>The unit \<open>sai\<close> (years old), the counter \<open>satsu\<close> (volumes) and the pieces of a table line.\<close>

definition sai :: ustr where
  "sai =
    [27507]"

definition satsu :: ustr where
  "satsu =
    [20874]"

definition sai_colon :: ustr where
  "sai_colon =
    [27507, 58, 32]"

definition sai_ijou :: ustr where
  "sai_ijou =
    [27507, 20197, 19978]"

section \<open>Library functions taken as parameters\<close>

text \<open>
  \<open>aggregate_statistics\<close> and the prompt builder call pandas, numpy and the float
  type of the interpreter, none of which is code of the repository. What they
  compute is taken as a parameter:
  \<^item> \<open>argsort_desc\<close>: the order in which \<open>Series.sort_values(ascending=False)\<close>
    (default \<open>kind\<close>, which pandas documents as not stable) takes the positions of
    the values it is given;
  \<^item> \<open>mean_of\<close>, \<open>median_of\<close>: \<open>float(s.mean())\<close> and \<open>float(s.median())\<close>;
  \<^item> \<open>float_of_int\<close>: the conversion that \<open>format(n, '.1f')\<close> applies to an
    \<open>int\<close> (an \<open>OverflowError\<close> when it is too large);
  \<^item> \<open>format_1f\<close>, \<open>str_float\<close>, \<open>float_truth\<close>: \<open>format(x, '.1f')\<close>, \<open>str(x)\<close>
    and \<open>bool(x)\<close> of a float;
  \<^item> \<open>repr_str\<close>: \<open>repr\<close> of a string.
\<close>

record 'f runtime =
  argsort_desc :: "nat list \<Rightarrow> nat list"
  mean_of :: "int list \<Rightarrow> 'f"
  median_of :: "int list \<Rightarrow> 'f"
  float_of_int :: "int \<Rightarrow> exn + 'f"
  format_1f :: "'f \<Rightarrow> ustr"
  str_float :: "'f \<Rightarrow> ustr"
  float_truth :: "'f \<Rightarrow> bool"
  repr_str :: "ustr \<Rightarrow> ustr"

text \<open>
  What the documentation of \<open>sort_values\<close> promises of the order: it is a
  permutation of the positions, and the values decrease along it.
\<close>

definition argsort_desc_ok :: "(nat list \<Rightarrow> nat list) \<Rightarrow> bool" where
  "argsort_desc_ok f =
     (\<forall>cs. mset (f cs) = mset [0..<length cs] \<and> sorted_wrt (\<lambda>i j. cs ! j \<le> cs ! i) (f cs))"

text \<open>
  An order that keeps this promise, for the instances below: the stable one, which
  leaves equal values in their order.
\<close>

definition stable_argsort_desc :: "nat list \<Rightarrow> nat list" where
  "stable_argsort_desc cs = map snd (sort_key (\<lambda>p. - int (fst p)) (zip cs [0..<length cs]))"

text \<open>
  A runtime for the instances below. A float is a pair \<open>(m, e)\<close> of integers that
  stands for \<open>m * 2^e\<close>. The mean is the sum divided by the count, rounded to the
  nearest double as the division of two floats is; the median of an even number
  of ages is the half of the sum of the two middle ones. \<open>format(x, '.1f')\<close> rounds
  the exact value to the nearest tenth, ties to even. This is what the
  interpreter computes as long as the sums stay below \<open>2^53\<close>. \<open>str\<close> of a float
  and \<open>repr\<close> of a string are stand-ins: the first is the \<open>.1f\<close> text, the second
  puts the string between single quotes.
\<close>

definition round_half_even :: "int \<Rightarrow> int \<Rightarrow> int" where
  "round_half_even a b =
     (let q = a div b; r = a mod b
      in if 2 * r < b then q else if b < 2 * r then q + 1 else if even q then q else q + 1)"

definition float_quotient :: "int \<Rightarrow> int \<Rightarrow> int \<times> int" where
  "float_quotient s n =
     (if s = 0 then (0, 0)
      else (let e0 = int (bit_length s) - int (bit_length n) - 53;
                e = (if 2 ^ 53 * (n * 2 ^ nat e0) \<le> s * 2 ^ nat (- e0) then e0 + 1 else e0)
            in (round_half_even (s * 2 ^ nat (- e)) (n * 2 ^ nat e), e)))"

definition float_mean :: "int list \<Rightarrow> int \<times> int" where
  "float_mean xs =
     (let s = sum_list xs; (m, e) = float_quotient \<bar>s\<bar> (int (length xs))
      in (if s < 0 then - m else m, e))"

definition float_median :: "int list \<Rightarrow> int \<times> int" where
  "float_median xs =
     (let ys = sort xs; n = length xs
      in if odd n then (ys ! (n div 2), 0) else (ys ! (n div 2 - 1) + ys ! (n div 2), - 1))"

definition tenths_text :: "int \<Rightarrow> ustr" where
  "tenths_text t =
     (if t < 0 then [45] else []) @
     py_str_int (\<bar>t\<bar> div 10) @ ascii ''.'' @ py_str_int (\<bar>t\<bar> mod 10)"

definition float_1f :: "int \<times> int \<Rightarrow> ustr" where
  "float_1f x =
     tenths_text (round_half_even (10 * fst x * 2 ^ nat (snd x)) (2 ^ nat (- snd x)))"

definition sample_runtime :: "(nat list \<Rightarrow> nat list) \<Rightarrow> (int \<times> int) runtime" where
  "sample_runtime argsort =
     \<lparr>argsort_desc = argsort,
      mean_of = float_mean,
      median_of = float_median,
      float_of_int = (\<lambda>i. Inr (nearest_double i, 0)),
      format_1f = float_1f,
      str_float = float_1f,
      float_truth = (\<lambda>x. fst x \<noteq> 0),
      repr_str = (\<lambda>s. [39] @ s @ [39])\<rparr>"

section \<open>Aggregation (\<open>aggregate_statistics\<close>, lines 78 to 123)\<close>

text \<open>
  The function reads two columns of its data frame: the target age (an integer,
  or missing) and, when the frame has one, the decade label. An age that pandas
  holds as a float is the integer that the float denotes; the keys of the table
  of ages are written here as the \<open>int\<close> column has them.
\<close>

record age_frame =
  age_col :: "int option list"
  decade_col :: "ustr option list option"

primrec dropna :: "'a option list \<Rightarrow> 'a list" where
  "dropna [] = []"
| "dropna (x # xs) = (case x of None \<Rightarrow> dropna xs | Some v \<Rightarrow> v # dropna xs)"

text \<open>
  \<open>value_counts()\<close> counts each distinct value, the values in the order of their
  first occurrence, and sorts the counts with \<open>sort_values(ascending=False)\<close>, which
  takes the rows in the order that the argsort of the counts gives.
\<close>

definition count_table :: "'a list \<Rightarrow> ('a \<times> nat) list" where
  "count_table xs = map (\<lambda>v. (v, count_list xs v)) (rev (remdups (rev xs)))"

definition sort_values_desc :: "(nat list \<Rightarrow> nat list) \<Rightarrow> ('a \<times> nat) list \<Rightarrow> ('a \<times> nat) list" where
  "sort_values_desc argsort tab = map (\<lambda>i. tab ! i) (argsort (map snd tab))"

definition value_counts :: "(nat list \<Rightarrow> nat list) \<Rightarrow> 'a list \<Rightarrow> ('a \<times> nat) list" where
  "value_counts argsort xs = sort_values_desc argsort (count_table xs)"

text \<open>Line 91: \<open>age_counts = df[age].value_counts().sort_values(ascending=False)\<close>.\<close>

definition age_counts_of :: "(nat list \<Rightarrow> nat list) \<Rightarrow> int option list \<Rightarrow> (int \<times> nat) list" where
  "age_counts_of argsort col = sort_values_desc argsort (value_counts argsort (dropna col))"

text \<open>
  Lines 109 to 120: a comparison with a missing age is false, so a missing age is
  in no band.
\<close>

definition in_band :: "int \<Rightarrow> int \<Rightarrow> int option \<Rightarrow> bool" where
  "in_band lo hi a = (case a of None \<Rightarrow> False | Some v \<Rightarrow> lo \<le> v \<and> v < hi)"

definition at_least :: "int \<Rightarrow> int option \<Rightarrow> bool" where
  "at_least lo a = (case a of None \<Rightarrow> False | Some v \<Rightarrow> lo \<le> v)"

definition age_groups_of :: "int option list \<Rightarrow> (ustr \<times> nat) list" where
  "age_groups_of col =
     [(ascii ''0-9'' @ sai, length (filter (in_band 0 10) col)),
      (ascii ''10-19'' @ sai, length (filter (in_band 10 20) col)),
      (ascii ''20-29'' @ sai, length (filter (in_band 20 30) col)),
      (ascii ''30-39'' @ sai, length (filter (in_band 30 40) col)),
      (ascii ''40-49'' @ sai, length (filter (in_band 40 50) col)),
      (ascii ''50-59'' @ sai, length (filter (in_band 50 60) col)),
      (ascii ''60-69'' @ sai, length (filter (in_band 60 70) col)),
      (ascii ''70-79'' @ sai, length (filter (in_band 70 80) col)),
      (ascii ''80-89'' @ sai, length (filter (in_band 80 90) col)),
      (ascii ''90'' @ sai_ijou, length (filter (at_least 90) col))]"

text \<open>
  The summary is a Python \<open>dict\<close>: each key may be missing, and a value is a
  scalar or a table (a \<open>dict\<close> of its own, kept in insertion order). The fields are
  the keys of \<open>stats\<close> in the order of the source: total number of books, mean age,
  minimum age, maximum age, median age, books per age (top 10), peak age, books
  at the peak age, books per decade, books per age band.
\<close>

datatype 'f scalar = VInt int | VFloat 'f | VStr ustr | VNone

datatype 'f field = Scalar "'f scalar" | Table "('f scalar \<times> 'f scalar) list"

record 'f stats =
  total_books :: "'f field option"
  mean_age :: "'f field option"
  min_age :: "'f field option"
  max_age :: "'f field option"
  median_age :: "'f field option"
  top_ages :: "'f field option"
  peak_age :: "'f field option"
  peak_count :: "'f field option"
  decade_counts :: "'f field option"
  age_groups :: "'f field option"

definition int_table :: "(int \<times> nat) list \<Rightarrow> 'f field" where
  "int_table tab = Table (map (\<lambda>(a, c). (VInt a, VInt (int c))) tab)"

definition str_table :: "(ustr \<times> nat) list \<Rightarrow> 'f field" where
  "str_table tab = Table (map (\<lambda>(l, c). (VStr l, VInt (int c))) tab)"

definition aggregate_statistics :: "'f runtime \<Rightarrow> age_frame \<Rightarrow> 'f stats" where
  "aggregate_statistics lib df =
     (let valid_ages = dropna (age_col df);
          age_counts = age_counts_of (argsort_desc lib) (age_col df)
      in \<lparr>total_books = Some (Scalar (VInt (int (length (age_col df))))),
          mean_age = Some (Scalar
            (if 0 < length valid_ages then VFloat (mean_of lib valid_ages) else VInt 0)),
          min_age = Some (Scalar (VInt
            (case valid_ages of [] \<Rightarrow> 0 | a # as \<Rightarrow> fold min as a))),
          max_age = Some (Scalar (VInt
            (case valid_ages of [] \<Rightarrow> 0 | a # as \<Rightarrow> fold max as a))),
          median_age = Some (Scalar
            (if 0 < length valid_ages then VFloat (median_of lib valid_ages) else VInt 0)),
          top_ages = Some (int_table (take 10 age_counts)),
          peak_age = (case age_counts of [] \<Rightarrow> None | (a, c) # rest \<Rightarrow> Some (Scalar (VInt a))),
          peak_count =
            (case age_counts of [] \<Rightarrow> None | (a, c) # rest \<Rightarrow> Some (Scalar (VInt (int c)))),
          decade_counts =
            (case decade_col df of
               None \<Rightarrow> None
             | Some col \<Rightarrow> Some (str_table (value_counts (argsort_desc lib) (dropna col)))),
          age_groups = Some (str_table (age_groups_of (age_col df)))\<rparr>)"

text \<open>
  The summary with no key at all, and a backend for the instances below: its
  first call fails with a message, every later call returns the prompt it is
  given; its state is the number of calls made.
\<close>

definition empty_stats :: "'f stats" where
  "empty_stats =
     \<lparr>total_books = None, mean_age = None, min_age = None, max_age = None, median_age = None,
      top_ages = None, peak_age = None, peak_count = None, decade_counts = None,
      age_groups = None\<rparr>"

definition failing_once :: "nat \<Rightarrow> ustr \<Rightarrow> (exn + ustr) \<times> nat" where
  "failing_once calls prompt =
     (if calls = 0 then Inl (Exn (ascii ''quota exceeded'')) else Inr prompt, Suc calls)"

section \<open>The prompt and the generation call (\<open>generate_article_with_gemini\<close>, lines 126 to 230)\<close>

text \<open>\<open>str\<close> and \<open>repr\<close> of the values of a summary, and \<open>sep.join\<close>.\<close>

definition py_str_scalar :: "'f runtime \<Rightarrow> 'f scalar \<Rightarrow> ustr" where
  "py_str_scalar lib v =
     (case v of VInt i \<Rightarrow> py_str_int i | VFloat x \<Rightarrow> str_float lib x | VStr s \<Rightarrow> s
      | VNone \<Rightarrow> ascii ''None'')"

definition py_repr_scalar :: "'f runtime \<Rightarrow> 'f scalar \<Rightarrow> ustr" where
  "py_repr_scalar lib v =
     (case v of VInt i \<Rightarrow> py_str_int i | VFloat x \<Rightarrow> str_float lib x | VStr s \<Rightarrow> repr_str lib s
      | VNone \<Rightarrow> ascii ''None'')"

fun join :: "ustr \<Rightarrow> ustr list \<Rightarrow> ustr" where
  "join sep [] = []"
| "join sep [x] = x"
| "join sep (x # y # ys) = x @ sep @ join sep (y # ys)"

definition py_str_field :: "'f runtime \<Rightarrow> 'f field \<Rightarrow> ustr" where
  "py_str_field lib v =
     (case v of
        Scalar s \<Rightarrow> py_str_scalar lib s
      | Table tab \<Rightarrow>
          ascii ''{'' @
          join (ascii '', '')
            (map (\<lambda>(k, w). py_repr_scalar lib k @ ascii '': '' @ py_repr_scalar lib w) tab) @
          ascii ''}'')"

text \<open>
  \<open>format(v, '.1f')\<close>: an \<open>int\<close> is converted to a float first; a string, \<open>None\<close>
  and a \<open>dict\<close> refuse the format code.
\<close>

definition fmt_1f :: "'f runtime \<Rightarrow> 'f field \<Rightarrow> exn + ustr" where
  "fmt_1f lib v =
     (case v of
        Scalar (VInt i) \<Rightarrow>
          (case float_of_int lib i of Inl e \<Rightarrow> Inl e | Inr x \<Rightarrow> Inr (format_1f lib x))
      | Scalar (VFloat x) \<Rightarrow> Inr (format_1f lib x)
      | Scalar (VStr s) \<Rightarrow> Inl (Exn (ascii ''Unknown format code 'f' for object of type 'str'' @ [39]))
      | Scalar VNone \<Rightarrow>
          Inl (Exn (ascii ''unsupported format string passed to NoneType.__format__''))
      | Table tab \<Rightarrow> Inl (Exn (ascii ''unsupported format string passed to dict.__format__'')))"

text \<open>\<open>v.items()\<close>: only a \<open>dict\<close> has the attribute.\<close>

definition py_items :: "'f field \<Rightarrow> exn + ('f scalar \<times> 'f scalar) list" where
  "py_items v =
     (case v of
        Table tab \<Rightarrow> Inr tab
      | Scalar (VInt i) \<Rightarrow> Inl (Exn (ascii '''int' object has no attribute 'items'' @ [39]))
      | Scalar (VFloat x) \<Rightarrow> Inl (Exn (ascii '''float' object has no attribute 'items'' @ [39]))
      | Scalar (VStr s) \<Rightarrow> Inl (Exn (ascii '''str' object has no attribute 'items'' @ [39]))
      | Scalar VNone \<Rightarrow> Inl (Exn (ascii '''NoneType' object has no attribute 'items'' @ [39])))"

text \<open>The truth value of what \<open>stats.get(key)\<close> returns (\<open>None\<close> when the key is missing).\<close>

definition py_truth :: "'f runtime \<Rightarrow> 'f field option \<Rightarrow> bool" where
  "py_truth lib v =
     (case v of
        None \<Rightarrow> False
      | Some (Table tab) \<Rightarrow> tab \<noteq> []
      | Some (Scalar (VInt i)) \<Rightarrow> i \<noteq> 0
      | Some (Scalar (VFloat x)) \<Rightarrow> float_truth lib x
      | Some (Scalar (VStr s)) \<Rightarrow> s \<noteq> []
      | Some (Scalar VNone) \<Rightarrow> False)"

text \<open>\<open>d.get(key, default)\<close> on a key that is a field of the record.\<close>

definition dict_get :: "'a option \<Rightarrow> 'a \<Rightarrow> 'a" where
  "dict_get v d = (case v of None \<Rightarrow> d | Some x \<Rightarrow> x)"

definition bind_exn :: "exn + 'a \<Rightarrow> ('a \<Rightarrow> exn + 'b) \<Rightarrow> exn + 'b" where
  "bind_exn r f = (case r of Inl e \<Rightarrow> Inl e | Inr x \<Rightarrow> f x)"

text \<open>One line of a table: \<open>f"- {key}{mid}{count}satsu"\<close>.\<close>

definition table_line :: "'f runtime \<Rightarrow> ustr \<Rightarrow> 'f scalar \<times> 'f scalar \<Rightarrow> ustr" where
  "table_line lib mid kv =
     ascii ''- '' @ py_str_scalar lib (fst kv) @ mid @ py_str_scalar lib (snd kv) @ satsu"

definition table_lines :: "'f runtime \<Rightarrow> ustr \<Rightarrow> ('f scalar \<times> 'f scalar) list \<Rightarrow> ustr" where
  "table_lines lib mid tab = join [10] (map (table_line lib mid) tab)"

text \<open>
  The f-string of lines 188 to 221 as a function of the texts that fill its
  twelve placeholders.
\<close>

definition prompt_template ::
  "ustr \<Rightarrow> ustr \<Rightarrow> ustr \<Rightarrow> ustr \<Rightarrow> ustr \<Rightarrow> ustr \<Rightarrow> ustr \<Rightarrow> ustr \<Rightarrow> ustr \<Rightarrow> ustr \<Rightarrow> ustr \<Rightarrow> ustr \<Rightarrow> ustr" where
  "prompt_template books mean_text minimum maximum median_text peak peak_books top_text
      band_text decade_text user_insights_section style_instruction =
     prompt_intro @ books @ prompt_mean @ mean_text @ prompt_min @ minimum @
     prompt_max @ maximum @ prompt_median @ median_text @ prompt_peak @ peak @
     prompt_peak_count @ peak_books @ prompt_top @ top_text @ prompt_bands @ band_text @
     prompt_decades @ decade_text @ user_insights_section @ prompt_outline @ style_instruction"

text \<open>
  The expressions of the f-string are evaluated from left to right and the first
  exception leaves it; \<open>str\<close> of a value never raises, so the expressions that can
  raise are the two \<open>.1f\<close> formats and the three \<open>.items()\<close>.
\<close>

definition build_prompt :: "'f runtime \<Rightarrow> 'f stats \<Rightarrow> ustr \<Rightarrow> ustr \<Rightarrow> exn + ustr" where
  "build_prompt lib stats style_instruction user_insights_section =
     bind_exn (fmt_1f lib (dict_get (mean_age stats) (Scalar (VInt 0)))) (\<lambda>mean_text.
     bind_exn (fmt_1f lib (dict_get (median_age stats) (Scalar (VInt 0)))) (\<lambda>median_text.
     bind_exn (py_items (dict_get (top_ages stats) (Table []))) (\<lambda>top.
     bind_exn (py_items (dict_get (age_groups stats) (Table []))) (\<lambda>bands.
     bind_exn
       (if py_truth lib (decade_counts stats)
        then bind_exn (py_items (dict_get (decade_counts stats) (Scalar VNone)))
               (\<lambda>decades. Inr (table_lines lib (ascii '': '') decades))
        else Inr no_data) (\<lambda>decade_text.
     Inr (prompt_template
            (py_str_field lib (dict_get (total_books stats) (Scalar (VInt 0))))
            mean_text
            (py_str_field lib (dict_get (min_age stats) (Scalar (VInt 0))))
            (py_str_field lib (dict_get (max_age stats) (Scalar (VInt 0))))
            median_text
            (py_str_field lib (dict_get (peak_age stats) (Scalar (VStr not_available))))
            (py_str_field lib (dict_get (peak_count stats) (Scalar (VInt 0))))
            (table_lines lib sai_colon top)
            (table_lines lib (ascii '': '') bands)
            decade_text user_insights_section style_instruction))))))"

text \<open>\<open>style_instructions.get(writing_style, style_instructions[standard])\<close>.\<close>

definition style_instruction_of :: "ustr \<Rightarrow> ustr" where
  "style_instruction_of writing_style =
     (case map_of
        [(style_standard, instruction_standard), (style_critical, instruction_critical),
         (style_poetic, instruction_poetic), (style_academic, instruction_academic),
         (style_approachable, instruction_approachable)] writing_style of
        None \<Rightarrow> instruction_standard
      | Some text \<Rightarrow> text)"

text \<open>\<open>s.strip()\<close>: the characters for which \<open>str.isspace\<close> holds are removed at both ends.\<close>

definition is_space :: "nat \<Rightarrow> bool" where
  "is_space c =
     (c \<in> set [9, 10, 11, 12, 13, 28, 29, 30, 31, 32, 133, 160, 5760, 8192, 8193, 8194, 8195,
        8196, 8197, 8198, 8199, 8200, 8201, 8202, 8232, 8233, 8239, 8287, 12288])"

definition py_strip :: "ustr \<Rightarrow> ustr" where
  "py_strip s = rev (dropWhile is_space (rev (dropWhile is_space s)))"

definition user_insights_section_of :: "ustr \<Rightarrow> ustr" where
  "user_insights_section_of user_insights =
     (if user_insights \<noteq> [] \<and> py_strip user_insights \<noteq> []
      then insights_head @ user_insights @ insights_tail else [])"

text \<open>
  The function itself. The search for the API key (lines 130 to 157) is a
  parameter: it raises, or finds a key or none. The generative backend is a
  state machine outside the program: \<open>generate s prompt\<close> is the outcome of one call
  of \<open>model.generate_content(prompt).text\<close> in the state \<open>s\<close> of the backend,
  together with its next state. Setting up the client (lines 164 and 165) calls
  nothing and is taken not to raise. The result is the pair \<open>(article, error)\<close> that the
  function returns, with the state in which it leaves the backend.
\<close>

definition generate_article_with_gemini ::
  "'f runtime \<Rightarrow> exn + ustr option \<Rightarrow> ('s \<Rightarrow> ustr \<Rightarrow> (exn + ustr) \<times> 's) \<Rightarrow> 's \<Rightarrow>
   'f stats \<Rightarrow> ustr \<Rightarrow> ustr \<Rightarrow> (ustr option \<times> ustr option) \<times> 's" where
  "generate_article_with_gemini lib api_key_lookup generate s stats writing_style user_insights =
     (case api_key_lookup of
        Inl (Exn msg) \<Rightarrow> ((None, Some (error_prefix @ msg)), s)
      | Inr api_key \<Rightarrow>
          if api_key = None \<or> api_key = Some [] then ((None, Some no_key_message), s)
          else
            (let style_instruction = style_instruction_of writing_style;
                 user_insights_section = user_insights_section_of user_insights
             in case build_prompt lib stats style_instruction user_insights_section of
                  Inl (Exn msg) \<Rightarrow> ((None, Some (error_prefix @ msg)), s)
                | Inr prompt \<Rightarrow>
                    (case generate s prompt of
                       (Inl (Exn msg), s') \<Rightarrow> ((None, Some (error_prefix @ msg)), s')
                     | (Inr article, s') \<Rightarrow> ((Some article, None), s'))))"

section \<open>Proofs\<close>

declare digits_of_nat.simps [simp del] bit_length.simps [simp del]

section \<open>Facts about the character tables and the regular expressions\<close>

lemma backoff_sound:
  "backoff lit k s = Some g \<Longrightarrow> \<exists>j. 0 < j \<and> j \<le> k \<and> g = take j s \<and> prefix lit (drop j s)"
proof (induction k)
  case 0 then show ?case by simp
next
  case (Suc k)
  show ?case
  proof (cases "prefix lit (drop (Suc k) s)")
    case True
    with Suc.prems have "g = take (Suc k) s" by simp
    with True show ?thesis by blast
  next
    case False
    with Suc.prems have "backoff lit k s = Some g" by simp
    from Suc.IH[OF this] obtain j where "0 < j" "j \<le> k" "g = take j s" "prefix lit (drop j s)"
      by blast
    then have "0 < j \<and> j \<le> Suc k \<and> g = take j s \<and> prefix lit (drop j s)" by simp
    then show ?thesis by blast
  qed
qed

lemma match_run_at_sound:
  assumes "match_run_at cls lit s = Some g"
  shows "g \<noteq> [] \<and> list_all cls g \<and> prefix (g @ lit) s"
proof -
  from assms obtain j where j: "0 < j" "j \<le> length (takeWhile cls s)" "g = take j s"
      "prefix lit (drop j s)"
    unfolding match_run_at_def using backoff_sound by blast
  have le: "j \<le> length s" using j(2) length_takeWhile_le[of cls s] by linarith
  have "take j s = take j (takeWhile cls s @ dropWhile cls s)" by simp
  also have "\<dots> = take j (takeWhile cls s)" using j(2) by (simp del: takeWhile_dropWhile_id)
  finally have "set g \<subseteq> set (takeWhile cls s)" using j(3) set_take_subset by metis
  then have "list_all cls g" by (auto simp: list_all_iff dest: set_takeWhileD)
  moreover have "g \<noteq> []" using j le by auto
  moreover have "prefix (g @ lit) s"
  proof -
    have "prefix (take j s @ lit) (take j s @ drop j s)" using j(4) by (simp only: same_prefix_prefix)
    then show ?thesis using j(3) by simp
  qed
  ultimately show ?thesis by simp
qed

lemma search_run_sound:
  "search_run cls lit s = Some g \<Longrightarrow> g \<noteq> [] \<and> list_all cls g \<and> sublist (g @ lit) s"
proof (induction s)
  case Nil then show ?case by simp
next
  case (Cons c s)
  show ?case
  proof (cases "match_run_at cls lit (c # s)")
    case None
    with Cons.prems have "search_run cls lit s = Some g" by simp
    from Cons.IH[OF this] show ?thesis by (auto simp: sublist_Cons_right)
  next
    case (Some h)
    with Cons.prems have "h = g" by simp
    with Some match_run_at_sound[of cls lit "c # s" g] show ?thesis by auto
  qed
qed

lemma py_int_run:
  "g \<noteq> [] \<Longrightarrow> list_all is_decimal g \<Longrightarrow> length g \<le> int_max_str_digits \<Longrightarrow>
   py_int g = Inr (decimal_value g)"
  by (simp add: py_int_def)

lemma py_int_long:
  "g \<noteq> [] \<Longrightarrow> list_all is_decimal g \<Longrightarrow> int_max_str_digits < length g \<Longrightarrow>
   \<exists>e. py_int g = Inl e"
  by (simp add: py_int_def)

lemma todecimal_gap: "7258 \<le> c \<Longrightarrow> c < 42528 \<Longrightarrow> todecimal c = None"
  by (simp add: todecimal_def decimal_blocks_def)

lemma marker_not_decimal: "list_all (\<lambda>c. \<not> is_decimal c) kara_suffix"
  by (simp add: kara_suffix_def is_decimal_def todecimal_gap)

lemma marker_not_kanji: "list_all (\<lambda>c. \<not> is_kanji_numeral c) kara_suffix"
  by (simp add: kara_suffix_def is_kanji_numeral_def kanji_numerals_def)

lemma ascii_digit_decimal: "is_ascii_digit c \<Longrightarrow> todecimal c = Some (c - 48)"
  by (simp add: is_ascii_digit_def todecimal_def decimal_blocks_def)

lemma ascii_digits_decimal: "list_all is_ascii_digit ds \<Longrightarrow> list_all is_decimal ds"
  by (induction ds) (simp_all add: is_decimal_def ascii_digit_decimal)

lemma prefix_lit_append:
  assumes "list_all (\<lambda>c. \<not> cls c) lit" and "rest \<noteq> []" and "cls (hd rest)"
  shows "prefix lit (q @ rest) = prefix lit q"
proof
  assume a: "prefix lit (q @ rest)"
  show "prefix lit q"
  proof (rule ccontr)
    assume n: "\<not> prefix lit q"
    with a obtain us where us: "lit = q @ us" "prefix us rest"
      by (auto simp: prefix_append)
    with n have ne: "us \<noteq> []" by auto
    from us(2) ne assms(2) have "hd us = hd rest" by (auto simp: prefix_def)
    moreover from us(1) ne have "hd us \<in> set lit" by simp
    ultimately show False using assms(1,3) by (auto simp: list_all_iff)
  qed
next
  assume "prefix lit q" then show "prefix lit (q @ rest)" by simp
qed

lemma backoff_append:
  assumes "list_all (\<lambda>c. \<not> cls c) lit" and "rest \<noteq> []" and "cls (hd rest)"
  shows "k \<le> length p \<Longrightarrow> backoff lit k (p @ rest) = backoff lit k p"
proof (induction k)
  case 0 then show ?case by simp
next
  case (Suc k)
  then have "drop (Suc k) (p @ rest) = drop (Suc k) p @ rest" "take (Suc k) (p @ rest) = take (Suc k) p"
    by simp_all
  with Suc prefix_lit_append[OF assms, of "drop (Suc k) p"] show ?case by simp
qed

lemma match_run_at_append:
  assumes "list_all (\<lambda>c. \<not> cls c) lit" and "rest \<noteq> []" and "cls (hd rest)"
    and "p \<noteq> []" and "\<not> cls (last p)"
  shows "match_run_at cls lit (p @ rest) = match_run_at cls lit p"
proof -
  have "last p \<in> set p" using assms(4) by simp
  then have "takeWhile cls (p @ rest) = takeWhile cls p"
    using assms(5) by (rule takeWhile_append1)
  then show ?thesis
    unfolding match_run_at_def
    using backoff_append[OF assms(1-3), of "length (takeWhile cls p)" p] length_takeWhile_le[of cls p]
    by simp
qed

lemma search_run_append:
  assumes "list_all (\<lambda>c. \<not> cls c) lit" and "rest \<noteq> []" and "cls (hd rest)"
  shows "pre = [] \<or> \<not> cls (last pre) \<Longrightarrow>
    search_run cls lit (pre @ rest) =
      (case search_run cls lit pre of Some g \<Rightarrow> Some g | None \<Rightarrow> search_run cls lit rest)"
proof (induction pre)
  case Nil then show ?case by simp
next
  case (Cons c p)
  then have l: "\<not> cls (last (c # p))" by simp
  have m: "match_run_at cls lit ((c # p) @ rest) = match_run_at cls lit (c # p)"
    using match_run_at_append[OF assms _ l] by simp
  have "p = [] \<or> \<not> cls (last p)" using l by (cases p) auto
  from Cons.IH[OF this] m show ?case by (simp split: option.splits)
qed

lemma match_run_at_here:
  assumes "ds \<noteq> []" and "list_all cls ds" and "lit \<noteq> []" and "\<not> cls (hd lit)"
  shows "match_run_at cls lit (ds @ lit @ post) = Some ds"
proof -
  have "takeWhile cls (lit @ post) = []" using assms(3,4) by (cases lit) auto
  then have t: "takeWhile cls (ds @ lit @ post) = ds"
    using assms(2) by (simp add: takeWhile_append2 list_all_iff)
  obtain k where k: "length ds = Suc k" using assms(1) by (cases ds) auto
  show ?thesis unfolding match_run_at_def t k
    using k by simp
qed

lemma search_run_here:
  assumes "ds \<noteq> []" and "list_all cls ds" and "lit \<noteq> []" and "\<not> cls (hd lit)"
  shows "search_run cls lit (ds @ lit @ post) = Some ds"
proof -
  obtain c s where cs: "ds @ lit @ post = c # s" using assms(1) by (cases ds) auto
  show ?thesis using match_run_at_here[OF assms, of post] unfolding cs by simp
qed

lemma search_run_complete:
  assumes "ds \<noteq> []" and "list_all cls ds" and "lit \<noteq> []" and "\<not> cls (hd lit)"
  shows "search_run cls lit (pre @ ds @ lit @ post) \<noteq> None"
proof (induction pre)
  case Nil
  show ?case using search_run_here[OF assms, of post] by simp
next
  case (Cons c p)
  then show ?case by (simp split: option.splits)
qed

lemma search_run_first:
  assumes "ds \<noteq> []" and "list_all cls ds" and "lit \<noteq> []" and "list_all (\<lambda>c. \<not> cls c) lit"
    and "search_run cls lit pre = None" and "pre = [] \<or> \<not> cls (last pre)"
  shows "search_run cls lit (pre @ ds @ lit @ post) = Some ds"
proof -
  have h: "\<not> cls (hd lit)" using assms(3,4) by (cases lit) auto
  have r: "ds @ lit @ post \<noteq> []" "cls (hd (ds @ lit @ post))"
    using assms(1,2) by (cases ds; simp)+
  show ?thesis
    using search_run_append[OF assms(4) r assms(6)] assms(5)
      search_run_here[OF assms(1,2,3) h, of post] by simp
qed

lemmas char_eval = is_decimal_def todecimal_def decimal_blocks_def is_kanji_numeral_def
  kanji_numerals_def kara_suffix_def match_run_at_def is_ascii_digit_def

lemma decimal_value_snoc: "decimal_value (s @ [c]) = 10 * decimal_value s + digit_val c"
  by (simp add: decimal_value_def)

lemma digits_of_nat_ascii: "list_all is_ascii_digit (digits_of_nat n)"
proof (induction n rule: digits_of_nat.induct)
  case (1 n)
  show ?case
  proof (cases "n < 10")
    case True then show ?thesis by (simp add: digits_of_nat.simps[of n] is_ascii_digit_def)
  next
    case False
    have "n mod 10 < 10" by simp
    then have "is_ascii_digit (48 + n mod 10)" unfolding is_ascii_digit_def by linarith
    with False 1 show ?thesis by (simp add: digits_of_nat.simps[of n])
  qed
qed

lemma digits_of_nat_nonempty: "digits_of_nat n \<noteq> []"
  by (simp add: digits_of_nat.simps[of n])

lemma digit_val_ascii: "d < 10 \<Longrightarrow> digit_val (48 + d) = int d"
  by (simp add: digit_val_def ascii_digit_decimal is_ascii_digit_def)

lemma decimal_value_digits_of_nat: "decimal_value (digits_of_nat n) = int n"
proof (induction n rule: digits_of_nat.induct)
  case (1 n)
  show ?case
  proof (cases "n < 10")
    case True
    then show ?thesis by (simp add: digits_of_nat.simps[of n] decimal_value_def digit_val_ascii)
  next
    case False
    have "decimal_value (digits_of_nat n) = 10 * int (n div 10) + int (n mod 10)"
      using False 1 by (simp add: digits_of_nat.simps[of n] decimal_value_snoc digit_val_ascii)
    also have "\<dots> = int n" by presburger
    finally show ?thesis .
  qed
qed


lemma extract_age_digit:
  assumes "\<not> py_not t" and "\<not> pd_isna t"
    and "search_run is_decimal kara_suffix (py_str t) = Some g"
  shows "extract_age k t = (if int_max_str_digits < length g then None else Some (decimal_value g))"
proof -
  from assms(3) have g: "g \<noteq> []" "list_all is_decimal g" using search_run_sound by blast+
  show ?thesis
  proof (cases "int_max_str_digits < length g")
    case True
    with g obtain e where "py_int g = Inl e" using py_int_long by blast
    with assms True show ?thesis by (simp add: extract_age_def)
  next
    case False
    with g have "py_int g = Inr (decimal_value g)" by (simp add: py_int_run)
    with assms False show ?thesis by (simp add: extract_age_def)
  qed
qed

lemma extract_age_first_digits:
  assumes "ds \<noteq> []" and "list_all is_ascii_digit ds"
    and "search_run is_decimal kara_suffix pre = None" and "pre = [] \<or> \<not> is_decimal (last pre)"
  shows "extract_age k (PStr (pre @ ds @ kara_suffix @ post)) =
    (if int_max_str_digits < length ds then None else Some (decimal_value ds))"
proof -
  have d: "list_all is_decimal ds" using assms(2) by (rule ascii_digits_decimal)
  have "search_run is_decimal kara_suffix (pre @ ds @ kara_suffix @ post) = Some ds"
    using assms d marker_not_decimal by (intro search_run_first) (simp_all add: kara_suffix_def)
  then show ?thesis
    using extract_age_digit[of "PStr (pre @ ds @ kara_suffix @ post)" ds k] assms(1) by simp
qed

lemma kanjize_thirteen: "kanjize_kanji2number [21313, 19977] = Inr 13"
  by (simp add: kanjize_kanji2number_def take_group_def take_unit_def kanji_digit_def)

lemma kanjize_ten_ten: "kanjize_kanji2number [21313, 21313] = Inl (Exn (ascii ''malformed numeral''))"
  by (simp add: kanjize_kanji2number_def take_group_def take_unit_def kanji_digit_def)

lemma kanjize_nonneg: "kanjize_kanji2number s = Inr m \<Longrightarrow> 0 \<le> m"
  by (auto simp: kanjize_kanji2number_def Let_def split: if_splits prod.splits)

section \<open>Claims about the extractors\<close>

text \<open>
  Claim C3, as the code has it. When the first match of the digit pattern in a
  title is a run of plain (ASCII) digits followed by the marker, \<open>extract_age\<close>
  returns the integer that the run denotes, provided the run has at most 4300
  digits, the limit of \<open>int()\<close>; in particular \<open>str(n)\<close> denotes \<open>n\<close>. A longer run
  makes \<open>int()\<close> raise and the result is absent. When no digit pattern matches and
  the first match of the kanji pattern is a token that \<open>kanji2number\<close> reads as 13,
  as it reads the token ten-three, the result is 13. The digit pattern is tried
  first: whenever it matches anywhere in the title, its first match decides,
  whatever kanji tokens the title holds.
\<close>

theorem extract_age_first_match:
  "(ds \<noteq> [] \<and> list_all is_ascii_digit ds \<and> length ds \<le> int_max_str_digits \<and>
      search_run is_decimal kara_suffix pre = None \<and> (pre = [] \<or> \<not> is_decimal (last pre))
     \<longrightarrow> extract_age k (PStr (pre @ ds @ kara_suffix @ post)) = Some (decimal_value ds)) \<and>
   (ds \<noteq> [] \<and> list_all is_ascii_digit ds \<and> int_max_str_digits < length ds \<and>
      search_run is_decimal kara_suffix pre = None \<and> (pre = [] \<or> \<not> is_decimal (last pre))
     \<longrightarrow> extract_age k (PStr (pre @ ds @ kara_suffix @ post)) = None) \<and>
   int_max_str_digits = 4300 \<and>
   decimal_value (digits_of_nat n) = int n \<and> list_all is_ascii_digit (digits_of_nat n) \<and>
   (tok \<noteq> [] \<and> list_all is_kanji_numeral tok \<and> k tok = Inr 13 \<and>
      search_run is_decimal kara_suffix (pre' @ tok @ kara_suffix @ post') = None \<and>
      search_run is_kanji_numeral kara_suffix pre' = None \<and>
      (pre' = [] \<or> \<not> is_kanji_numeral (last pre'))
     \<longrightarrow> extract_age k (PStr (pre' @ tok @ kara_suffix @ post')) = Some 13) \<and>
   kanjize_kanji2number [21313, 19977] = Inr 13 \<and>
   (\<not> py_not t \<and> \<not> pd_isna t \<and> search_run is_decimal kara_suffix (py_str t) = Some g
     \<longrightarrow> extract_age k t =
          (if int_max_str_digits < length g then None else Some (decimal_value g)))"
proof (intro conjI impI)
  assume a: "ds \<noteq> [] \<and> list_all is_ascii_digit ds \<and> length ds \<le> int_max_str_digits \<and>
      search_run is_decimal kara_suffix pre = None \<and> (pre = [] \<or> \<not> is_decimal (last pre))"
  then show "extract_age k (PStr (pre @ ds @ kara_suffix @ post)) = Some (decimal_value ds)"
    using extract_age_first_digits[of ds pre k post] by simp
next
  assume a: "ds \<noteq> [] \<and> list_all is_ascii_digit ds \<and> int_max_str_digits < length ds \<and>
      search_run is_decimal kara_suffix pre = None \<and> (pre = [] \<or> \<not> is_decimal (last pre))"
  then show "extract_age k (PStr (pre @ ds @ kara_suffix @ post)) = None"
    using extract_age_first_digits[of ds pre k post] by simp
next
  show "int_max_str_digits = 4300" by (rule int_max_str_digits_def)
next
  show "decimal_value (digits_of_nat n) = int n" by (rule decimal_value_digits_of_nat)
next
  show "list_all is_ascii_digit (digits_of_nat n)" by (rule digits_of_nat_ascii)
next
  assume a: "tok \<noteq> [] \<and> list_all is_kanji_numeral tok \<and> k tok = Inr 13 \<and>
      search_run is_decimal kara_suffix (pre' @ tok @ kara_suffix @ post') = None \<and>
      search_run is_kanji_numeral kara_suffix pre' = None \<and>
      (pre' = [] \<or> \<not> is_kanji_numeral (last pre'))"
  have "search_run is_kanji_numeral kara_suffix (pre' @ tok @ kara_suffix @ post') = Some tok"
    using a marker_not_kanji by (intro search_run_first) (simp_all add: kara_suffix_def)
  then show "extract_age k (PStr (pre' @ tok @ kara_suffix @ post')) = Some 13"
    using a by (simp add: extract_age_def)
next
  show "kanjize_kanji2number [21313, 19977] = Inr 13" by (rule kanjize_thirteen)
next
  assume a: "\<not> py_not t \<and> \<not> pd_isna t \<and>
     search_run is_decimal kara_suffix (py_str t) = Some g"
  then show "extract_age k t =
          (if int_max_str_digits < length g then None else Some (decimal_value g))"
    using extract_age_digit[of t g k] by simp
qed

theorem extract_age_first_match_witness:
  "extract_age kanjize_kanji2number
     (PStr ([49, 51] @ kara_suffix @ [21746, 23398])) = Some 13 \<and>
   decimal_value (digits_of_nat 13) = 13 \<and>
   extract_age kanjize_kanji2number
     (PStr ([] @ [21313, 19977] @ kara_suffix @ [21746, 23398])) = Some 13 \<and>
   extract_age kanjize_kanji2number
     (PStr ([21313, 19977] @ kara_suffix @ [53] @ kara_suffix)) = Some 5 \<and>
   extract_age kanjize_kanji2number (PStr ([] @ replicate 4301 49 @ kara_suffix @ [])) = None"
proof -
  note t = extract_age_first_match[of "[49, 51]" "[]" kanjize_kanji2number "[21746, 23398]"
      13 "[21313, 19977]" "[]" "[21746, 23398]"
      "PStr ([21313, 19977] @ kara_suffix @ [53] @ kara_suffix)" "[53]"]
  note u = extract_age_first_match[of "replicate 4301 49" "[]" kanjize_kanji2number "[]",
      THEN conjunct2, THEN conjunct1]
  have 1: "decimal_value [49, 51] = 13" "decimal_value [53] = 5"
    by (simp_all add: decimal_value_def digit_val_def todecimal_def decimal_blocks_def)
  have 2: "search_run is_decimal kara_suffix ([] @ [21313, 19977] @ kara_suffix @ [21746, 23398]) = None"
    by (simp add: char_eval)
  have 3: "search_run is_decimal kara_suffix (py_str (PStr ([21313, 19977] @ kara_suffix @ [53] @ kara_suffix))) = Some [53]"
    by (simp add: char_eval)
  have 4: "list_all is_ascii_digit (replicate 4301 49)"
    by (simp add: list_all_iff is_ascii_digit_def)
  have 5: "extract_age kanjize_kanji2number (PStr ([] @ replicate 4301 49 @ kara_suffix @ [])) = None"
    using u 4 by (simp add: int_max_str_digits_def)
  show ?thesis using t 1 2 3 5
    by (simp add: is_ascii_digit_def is_kanji_numeral_def kanji_numerals_def
        kanjize_thirteen int_max_str_digits_def)
qed

text \<open>
  Claim C3 as it is stated fails: the title made of the digit 1 written 4301 times
  and the marker has the marker preceded by a positive integer in plain digits,
  and its age is absent, because \<open>int()\<close> refuses more than 4300 digits.
\<close>

theorem long_digit_run_has_no_age:
  "list_all is_ascii_digit (replicate 4301 49) \<and>
   extract_age kanjize_kanji2number (PStr (replicate 4301 49 @ kara_suffix)) = None"
proof -
  have 1: "list_all is_ascii_digit (replicate 4301 49)"
    by (simp add: list_all_iff is_ascii_digit_def)
  have 2: "replicate 4301 (49::nat) \<noteq> []" by simp
  have 3: "search_run is_decimal kara_suffix [] = None" by simp
  from extract_age_first_digits[OF 2 1 3, of kanjize_kanji2number "[]"]
  show ?thesis using 1 by (simp add: int_max_str_digits_def)
qed

lemma digit_val_nonneg: "0 \<le> digit_val c"
  by (simp add: digit_val_def split: option.splits)

lemma foldl_decimal_nonneg: "0 \<le> a \<Longrightarrow> 0 \<le> foldl (\<lambda>acc c. 10 * acc + digit_val c) a s"
proof (induction s arbitrary: a)
  case Nil then show ?case by simp
next
  case (Cons c s)
  have "0 \<le> 10 * a + digit_val c" using Cons.prems digit_val_nonneg[of c] by simp
  from Cons.IH[OF this] show ?case by simp
qed

lemma decimal_value_nonneg: "0 \<le> decimal_value s"
  by (simp add: decimal_value_def foldl_decimal_nonneg)

lemma extract_age_nonneg:
  assumes "\<And>tok m. k tok = Inr m \<Longrightarrow> 0 \<le> m" and "extract_age k t = Some n"
  shows "0 \<le> n"
proof -
  from assms(2) have n: "\<not> py_not t" "\<not> pd_isna t"
    by (auto simp: extract_age_def split: if_splits)
  show ?thesis
  proof (cases "search_run is_decimal kara_suffix (py_str t)")
    case (Some g)
    from extract_age_digit[OF n Some, of k] assms(2) have "n = decimal_value g"
      by (simp split: if_splits)
    then show ?thesis by (simp add: decimal_value_nonneg)
  next
    case None
    with n assms(2) obtain g where "k g = Inr n"
      by (auto simp: extract_age_def split: option.splits sum.splits)
    then show ?thesis by (rule assms(1))
  qed
qed

text \<open>
  Claim C2, as the code has it. An age is only ever extracted from a title that
  \<open>is_kara_pattern\<close> accepts. The converse fails in exactly two cases: the first
  digit match of the title is a run of more than 4300 digits, which \<open>int()\<close>
  refuses; or the title has no digit match and \<open>kanji2number\<close> raises on the token
  of its first kanji match. In both \<open>is_kara_pattern\<close> holds and \<open>extract_age\<close>
  returns \<open>None\<close>.
\<close>

theorem extract_age_implies_pattern:
  "(extract_age k t \<noteq> None \<longrightarrow> is_kara_pattern t) \<and>
   (is_kara_pattern t \<longrightarrow>
      (extract_age k t = None) =
      ((\<exists>g. search_run is_decimal kara_suffix (py_str t) = Some g \<and>
            int_max_str_digits < length g) \<or>
       (search_run is_decimal kara_suffix (py_str t) = None \<and>
        (\<exists>g e. search_run is_kanji_numeral kara_suffix (py_str t) = Some g \<and> k g = Inl e))))"
proof (intro conjI impI)
  assume "extract_age k t \<noteq> None"
  then show "is_kara_pattern t"
    by (auto simp: extract_age_def is_kara_pattern_def Let_def split: if_splits option.splits)
next
  assume p: "is_kara_pattern t"
  then have n: "\<not> py_not t" "\<not> pd_isna t"
    by (auto simp: is_kara_pattern_def split: if_splits)
  show "(extract_age k t = None) =
      ((\<exists>g. search_run is_decimal kara_suffix (py_str t) = Some g \<and>
            int_max_str_digits < length g) \<or>
       (search_run is_decimal kara_suffix (py_str t) = None \<and>
        (\<exists>g e. search_run is_kanji_numeral kara_suffix (py_str t) = Some g \<and> k g = Inl e)))"
  proof (cases "search_run is_decimal kara_suffix (py_str t)")
    case (Some g)
    with n show ?thesis using extract_age_digit[of t g k] by simp
  next
    case None
    with p n obtain g where g: "search_run is_kanji_numeral kara_suffix (py_str t) = Some g"
      by (auto simp: is_kara_pattern_def Let_def split: if_splits)
    show ?thesis
    proof (cases "k g")
      case (Inl e)
      with None g n show ?thesis by (simp add: extract_age_def)
    next
      case (Inr m)
      with None g n show ?thesis by (simp add: extract_age_def)
    qed
  qed
qed

lemma long_run_search:
  "search_run is_decimal kara_suffix (replicate 4301 49 @ kara_suffix) = Some (replicate 4301 49)"
proof -
  have 1: "list_all is_decimal (replicate 4301 49)"
    by (simp add: list_all_iff is_decimal_def todecimal_def decimal_blocks_def)
  have 2: "replicate 4301 (49::nat) \<noteq> []" by simp
  have 3: "search_run is_decimal kara_suffix [] = None" by simp
  from search_run_first[OF 2 1 _ marker_not_decimal 3, of "[]"]
  show ?thesis by (simp add: kara_suffix_def)
qed

theorem extract_age_implies_pattern_witness:
  "extract_age kanjize_kanji2number (PStr ([21313, 19977] @ kara_suffix)) = Some 13 \<and>
   is_kara_pattern (PStr ([21313, 19977] @ kara_suffix)) \<and>
   is_kara_pattern (PStr ([21313, 21313] @ kara_suffix)) \<and>
   search_run is_decimal kara_suffix (py_str (PStr ([21313, 21313] @ kara_suffix))) = None \<and>
   search_run is_kanji_numeral kara_suffix (py_str (PStr ([21313, 21313] @ kara_suffix))) =
     Some [21313, 21313] \<and>
   kanjize_kanji2number [21313, 21313] = Inl (Exn (ascii ''malformed numeral'')) \<and>
   extract_age kanjize_kanji2number (PStr ([21313, 21313] @ kara_suffix)) = None \<and>
   is_kara_pattern (PStr (replicate 4301 49 @ kara_suffix)) \<and>
   extract_age kanjize_kanji2number (PStr (replicate 4301 49 @ kara_suffix)) = None"
proof -
  have 1: "extract_age kanjize_kanji2number (PStr ([21313, 19977] @ kara_suffix)) = Some 13"
    by (simp add: extract_age_def char_eval kanjize_thirteen)
  have 2: "is_kara_pattern (PStr ([21313, 21313] @ kara_suffix))"
    by (simp add: is_kara_pattern_def char_eval)
  have 3: "search_run is_decimal kara_suffix (py_str (PStr ([21313, 21313] @ kara_suffix))) = None"
    by (simp add: char_eval)
  have 4: "search_run is_kanji_numeral kara_suffix (py_str (PStr ([21313, 21313] @ kara_suffix))) =
     Some [21313, 21313]"
    by (simp add: char_eval)
  note 5 = kanjize_ten_ten
  from extract_age_implies_pattern[of kanjize_kanji2number "PStr ([21313, 19977] @ kara_suffix)"] 1
  have 6: "is_kara_pattern (PStr ([21313, 19977] @ kara_suffix))" by simp
  from extract_age_implies_pattern[of kanjize_kanji2number "PStr ([21313, 21313] @ kara_suffix)"] 2 3 4 5
  have 7: "extract_age kanjize_kanji2number (PStr ([21313, 21313] @ kara_suffix)) = None" by simp
  have 8: "is_kara_pattern (PStr (replicate 4301 49 @ kara_suffix))"
    using long_run_search by (simp add: is_kara_pattern_def)
  from extract_age_implies_pattern[of kanjize_kanji2number "PStr (replicate 4301 49 @ kara_suffix)"]
    8 long_run_search
  have 9: "extract_age kanjize_kanji2number (PStr (replicate 4301 49 @ kara_suffix)) = None"
    by (simp add: int_max_str_digits_def)
  from 1 2 3 4 5 6 7 8 9 show ?thesis by simp
qed

text \<open>
  The law of claim C2 as it is stated fails where the claim insists on it: the
  parser raises on the token ten-ten, and the title made of that token and the
  marker is accepted by \<open>is_kara_pattern\<close> and has no age.
\<close>

theorem pattern_without_age:
  "is_kara_pattern (PStr ([21313, 21313] @ kara_suffix)) \<and>
   extract_age kanjize_kanji2number (PStr ([21313, 21313] @ kara_suffix)) = None"
  by (simp add: is_kara_pattern_def extract_age_def char_eval kanjize_ten_ten)

section \<open>Claims about the filter\<close>

lemma nearest_double_small: "\<bar>v\<bar> \<le> 2 ^ 53 \<Longrightarrow> nearest_double v = v"
proof -
  assume a: "\<bar>v\<bar> \<le> 2 ^ 53"
  have e: "round_to_53_bits (2 ^ 53) = 2 ^ 53"
    by (simp add: round_to_53_bits_def bit_length.simps Let_def)
  have r: "round_to_53_bits n = n" if "0 \<le> n" "n \<le> 2 ^ 53" for n
  proof (cases "n = 2 ^ 53")
    case True then show ?thesis using e by simp
  next
    case False
    with that have "n < 2 ^ 53" by simp
    then show ?thesis by (simp add: round_to_53_bits_def)
  qed
  show ?thesis
  proof (cases "v < 0")
    case True
    with a have "round_to_53_bits (- v) = - v" by (intro r) simp_all
    with True show ?thesis by (simp add: nearest_double_def)
  next
    case False
    with a have "round_to_53_bits v = v" by (intro r) simp_all
    with False show ?thesis by (simp add: nearest_double_def)
  qed
qed

lemma round_to_53_bits_nonneg: "0 \<le> n \<Longrightarrow> 0 \<le> round_to_53_bits n"
proof -
  assume n: "0 \<le> n"
  have q: "0 \<le> n div 2 ^ e" for e :: nat
    using n by (simp add: pos_imp_zdiv_nonneg_iff)
  then have q1: "0 \<le> n div 2 ^ e + 1" for e :: nat
    using q[of e] by linarith
  show ?thesis
    using n q q1 by (simp add: round_to_53_bits_def Let_def)
qed

lemma nearest_double_nonneg: "0 \<le> v \<Longrightarrow> 0 \<le> nearest_double v"
  by (simp add: nearest_double_def round_to_53_bits_nonneg)

lemma stored_as_refl: "stored_as a a"
  by (simp add: stored_as_def split: option.splits)

lemma stored_as_double: "stored_as a (map_option nearest_double a)"
  by (simp add: stored_as_def nearest_double_small nearest_double_nonneg split: option.splits)

lemma sample_column_ok: "column_ok sample_column"
  unfolding column_ok_def
proof (intro conjI allI impI)
  fix raw col assume "sample_column raw = Inr col"
  then have c: "col = (if list_all in_int64 raw \<and> None \<in> set raw
          then map (map_option nearest_double) raw else raw)"
    by (simp add: sample_column_def)
  show "list_all2 stored_as raw col"
    unfolding c by (simp add: list_all2_map2 stored_as_double stored_as_refl list_all2_same)
next
  fix raw assume "list_all in_int64 raw"
  then show "sample_column raw =
        Inr (if None \<in> set raw then map (map_option nearest_double) raw else raw)"
    by (simp add: sample_column_def)
qed

lemma filter_and_enrich_shape:
  assumes "column_ok tc" and "filter_and_enrich k tc df = Inr out"
  shows "\<exists>col. tc (map (\<lambda>r. extract_age k (title r)) (filter (\<lambda>r. is_kara_pattern (title r)) df)) = Inr col \<and>
      list_all2 (\<lambda>r a. stored_as (extract_age k (title r)) a) (filter (\<lambda>r. is_kara_pattern (title r)) df) col \<and>
      out = map (\<lambda>(r, a). \<lparr>source = r, target_age = a\<rparr>) (zip (filter (\<lambda>r. is_kara_pattern (title r)) df) col)"
proof -
  let ?kept = "filter (\<lambda>r. is_kara_pattern (title r)) df"
  from assms(2) obtain col where col: "tc (map (\<lambda>r. extract_age k (title r)) ?kept) = Inr col"
    and out: "out = map (\<lambda>(r, a). \<lparr>source = r, target_age = a\<rparr>) (zip ?kept col)"
    by (auto simp: filter_and_enrich_def Let_def split: sum.splits)
  from assms(1) col have "list_all2 stored_as (map (\<lambda>r. extract_age k (title r)) ?kept) col"
    by (simp add: column_ok_def)
  then have "list_all2 (\<lambda>r a. stored_as (extract_age k (title r)) a) ?kept col"
    by (simp add: list_all2_map1)
  with col out show ?thesis by blast
qed

lemma filter_and_enrich_elem:
  assumes "column_ok tc" and "filter_and_enrich k tc df = Inr out" and "e \<in> set out"
  shows "is_kara_pattern (title (source e)) \<and>
         stored_as (extract_age k (title (source e))) (target_age e)"
proof -
  let ?kept = "filter (\<lambda>r. is_kara_pattern (title r)) df"
  from filter_and_enrich_shape[OF assms(1,2)] obtain col where
    st: "list_all2 (\<lambda>r a. stored_as (extract_age k (title r)) a) ?kept col"
    and out: "out = map (\<lambda>(r, a). \<lparr>source = r, target_age = a\<rparr>) (zip ?kept col)"
    by blast
  from assms(3) obtain r a where ra: "(r, a) \<in> set (zip ?kept col)" "e = \<lparr>source = r, target_age = a\<rparr>"
    unfolding out by auto
  from ra(1) have "r \<in> set ?kept" by (rule set_zip_leftD)
  moreover from st ra(1) have "stored_as (extract_age k (title r)) a"
    by (auto simp: list_all2_iff)
  ultimately show ?thesis using ra(2) by simp
qed

lemma pipeline_ages_nonneg:
  assumes "column_ok tc" and "\<And>tok m. k tok = Inr m \<Longrightarrow> 0 \<le> m"
    and "filter_and_enrich k tc df = Inr rows"
  shows "\<forall>a \<in> set (map target_age (with_age rows)). \<exists>v. a = Some v \<and> 0 \<le> v"
proof
  fix a assume "a \<in> set (map target_age (with_age rows))"
  then obtain e where e: "e \<in> set rows" "target_age e \<noteq> None" "a = target_age e"
    by (auto simp: with_age_def)
  from filter_and_enrich_elem[OF assms(1,3) e(1)]
  have st: "stored_as (extract_age k (title (source e))) (target_age e)" by simp
  show "\<exists>v. a = Some v \<and> 0 \<le> v"
  proof (cases "extract_age k (title (source e))")
    case None
    with st e(2) show ?thesis by (simp add: stored_as_def)
  next
    case (Some v)
    from extract_age_nonneg[OF assms(2) Some] have "0 \<le> v" .
    with st Some e(3) show ?thesis by (auto simp: stored_as_def)
  qed
qed

text \<open>
  Claim C1, as the code has it. When the age column is built, the filter has kept
  exactly the records whose title \<open>is_kara_pattern\<close> accepts, in their order, and
  each kept record carries the age extracted from its title as pandas stores it:
  absent when the extraction is absent, present otherwise, and equal to the
  extracted age when that is at most \<open>2^53\<close> in absolute value. A record whose
  title is accepted and whose extraction is absent is kept, with an absent age;
  the records without an age are removed later, by the \<open>notna\<close> filter that
  precedes the charts and the aggregation, after which every age is present.
  When every extracted age is in the range of \<open>int64\<close> the column is built, exact
  if no age is absent and rounded to the nearest double if one is.
\<close>

theorem filter_and_enrich_ages:
  "(column_ok tc \<and> filter_and_enrich k tc df = Inr out \<longrightarrow>
      map source out = filter (\<lambda>r. is_kara_pattern (title r)) df \<and>
      (\<forall>e \<in> set out.
         is_kara_pattern (title (source e)) \<and>
         stored_as (extract_age k (title (source e))) (target_age e) \<and>
         ((target_age e = None) = (extract_age k (title (source e)) = None))) \<and>
      (\<forall>r \<in> set df. is_kara_pattern (title r) \<and> extract_age k (title r) = None
         \<longrightarrow> \<lparr>source = r, target_age = None\<rparr> \<in> set out) \<and>
      (\<forall>e \<in> set (with_age out). target_age e \<noteq> None)) \<and>
   (column_ok tc \<and>
    (\<forall>r \<in> set df. is_kara_pattern (title r) \<longrightarrow> in_int64 (extract_age k (title r)))
    \<longrightarrow> filter_and_enrich k tc df =
         Inr (map (\<lambda>r. \<lparr>source = r,
                       target_age =
                         (if \<exists>r' \<in> set df. is_kara_pattern (title r') \<and> extract_age k (title r') = None
                          then map_option nearest_double (extract_age k (title r))
                          else extract_age k (title r))\<rparr>)
                (filter (\<lambda>r. is_kara_pattern (title r)) df))) \<and>
   stored_as a c =
     (case a of
        None \<Rightarrow> c = None
      | Some v \<Rightarrow> (\<exists>w. c = Some w \<and> (0 \<le> v \<longrightarrow> 0 \<le> w) \<and> (\<bar>v\<bar> \<le> 2 ^ 53 \<longrightarrow> w = v)))"
proof (intro conjI impI)
  assume a: "column_ok tc \<and> filter_and_enrich k tc df = Inr out"
  let ?kept = "filter (\<lambda>r. is_kara_pattern (title r)) df"
  from filter_and_enrich_shape[of tc k df out] a obtain col where
    st: "list_all2 (\<lambda>r a. stored_as (extract_age k (title r)) a) ?kept col"
    and out: "out = map (\<lambda>(r, a). \<lparr>source = r, target_age = a\<rparr>) (zip ?kept col)"
    by blast
  from st have len: "length ?kept = length col" by (rule list_all2_lengthD)
  have src: "map source out = ?kept"
    unfolding out using len by (simp add: comp_def case_prod_unfold map_fst_zip[unfolded comp_def])
  show "map source out = ?kept" by (rule src)
  have el: "is_kara_pattern (title (source e)) \<and>
         stored_as (extract_age k (title (source e))) (target_age e)" if "e \<in> set out" for e
  proof -
    from that obtain r a where ra: "(r, a) \<in> set (zip ?kept col)" "e = \<lparr>source = r, target_age = a\<rparr>"
      unfolding out by auto
    from ra(1) have "r \<in> set ?kept" by (rule set_zip_leftD)
    moreover from st ra(1) have "stored_as (extract_age k (title r)) a"
      by (auto simp: list_all2_iff)
    ultimately show ?thesis using ra(2) by simp
  qed
  show "\<forall>e \<in> set out.
         is_kara_pattern (title (source e)) \<and>
         stored_as (extract_age k (title (source e))) (target_age e) \<and>
         ((target_age e = None) = (extract_age k (title (source e)) = None))"
  proof
    fix e assume "e \<in> set out"
    from el[OF this] show "is_kara_pattern (title (source e)) \<and>
         stored_as (extract_age k (title (source e))) (target_age e) \<and>
         ((target_age e = None) = (extract_age k (title (source e)) = None))"
      by (auto simp: stored_as_def split: option.splits)
  qed
  show "\<forall>r \<in> set df. is_kara_pattern (title r) \<and> extract_age k (title r) = None
         \<longrightarrow> \<lparr>source = r, target_age = None\<rparr> \<in> set out"
  proof (intro ballI impI)
    fix r assume r: "r \<in> set df" "is_kara_pattern (title r) \<and> extract_age k (title r) = None"
    then have "r \<in> set ?kept" by simp
    then obtain i where i: "i < length ?kept" "?kept ! i = r" by (metis in_set_conv_nth)
    from st i have "stored_as (extract_age k (title r)) (col ! i)"
      by (auto simp: list_all2_conv_all_nth)
    with r have c: "col ! i = None" by (simp add: stored_as_def)
    have "(r, None) \<in> set (zip ?kept col)"
      using i c len by (auto simp: in_set_zip intro!: exI[of _ i])
    then show "\<lparr>source = r, target_age = None\<rparr> \<in> set out"
      unfolding out by force
  qed
  show "\<forall>e \<in> set (with_age out). target_age e \<noteq> None" by (simp add: with_age_def)
next
  assume a: "column_ok tc \<and>
    (\<forall>r \<in> set df. is_kara_pattern (title r) \<longrightarrow> in_int64 (extract_age k (title r)))"
  let ?kept = "filter (\<lambda>r. is_kara_pattern (title r)) df"
  let ?raw = "map (\<lambda>r. extract_age k (title r)) ?kept"
  from a have "list_all in_int64 ?raw" by (simp add: list_all_iff)
  with a have tc: "tc ?raw = Inr (if None \<in> set ?raw then map (map_option nearest_double) ?raw else ?raw)"
    by (simp add: column_ok_def)
  have n: "(None \<in> set ?raw) = (\<exists>r' \<in> set df. is_kara_pattern (title r') \<and> extract_age k (title r') = None)"
    by (auto simp: image_iff)
  have z: "map (\<lambda>(r, a). \<lparr>source = r, target_age = a\<rparr>) (zip xs (map f xs)) =
        map (\<lambda>r. \<lparr>source = r, target_age = f r\<rparr>) xs" for f and xs :: "raw_record list"
    by (induction xs) simp_all
  show "filter_and_enrich k tc df =
         Inr (map (\<lambda>r. \<lparr>source = r,
                       target_age =
                         (if \<exists>r' \<in> set df. is_kara_pattern (title r') \<and> extract_age k (title r') = None
                          then map_option nearest_double (extract_age k (title r))
                          else extract_age k (title r))\<rparr>)
                ?kept)"
  proof (cases "None \<in> set ?raw")
    case True
    with n have ex: "\<exists>r' \<in> set df. is_kara_pattern (title r') \<and> extract_age k (title r') = None"
      by simp
    from True tc have "tc ?raw = Inr (map (\<lambda>r. map_option nearest_double (extract_age k (title r))) ?kept)"
      by (simp add: comp_def)
    then have "filter_and_enrich k tc df =
        Inr (map (\<lambda>r. \<lparr>source = r, target_age = map_option nearest_double (extract_age k (title r))\<rparr>) ?kept)"
      using z[of ?kept "\<lambda>r. map_option nearest_double (extract_age k (title r))"]
      by (simp only: filter_and_enrich_def Let_def sum.case)
    then show ?thesis by (simp only: ex if_True)
  next
    case False
    with n have ex: "\<not> (\<exists>r' \<in> set df. is_kara_pattern (title r') \<and> extract_age k (title r') = None)"
      by simp
    from False tc have "tc ?raw = Inr (map (\<lambda>r. extract_age k (title r)) ?kept)" by simp
    then have "filter_and_enrich k tc df =
        Inr (map (\<lambda>r. \<lparr>source = r, target_age = extract_age k (title r)\<rparr>) ?kept)"
      using z[of ?kept "\<lambda>r. extract_age k (title r)"]
      by (simp only: filter_and_enrich_def Let_def sum.case)
    then show ?thesis by (simp only: ex if_False)
  qed
next
  show "stored_as a c =
     (case a of
        None \<Rightarrow> c = None
      | Some v \<Rightarrow> (\<exists>w. c = Some w \<and> (0 \<le> v \<longrightarrow> 0 \<le> w) \<and> (\<bar>v\<bar> \<le> 2 ^ 53 \<longrightarrow> w = v)))"
    by (rule stored_as_def)
qed

lemma nearest_double_example: "nearest_double 9007199254740993 = 9007199254740992"
  by (simp add: nearest_double_def round_to_53_bits_def bit_length.simps Let_def)

lemma big_title_pattern:
  "is_kara_pattern (PStr (ascii ''9007199254740993'' @ kara_suffix))"
  by (simp add: is_kara_pattern_def char_eval ascii_def)

lemma big_title_age:
  "extract_age k (PStr (ascii ''9007199254740993'' @ kara_suffix)) = Some 9007199254740993"
  by (simp add: extract_age_def char_eval ascii_def py_int_def decimal_value_def digit_val_def
      int_max_str_digits_def)

lemma ten_ten_pattern: "is_kara_pattern (PStr ([21313, 21313] @ kara_suffix))"
  by (simp add: is_kara_pattern_def char_eval)

lemma ten_ten_age: "extract_age kanjize_kanji2number (PStr ([21313, 21313] @ kara_suffix)) = None"
  by (simp add: extract_age_def char_eval kanjize_ten_ten)

lemma abc_pattern: "\<not> is_kara_pattern (PStr (ascii ''abc''))"
  by (simp add: is_kara_pattern_def char_eval ascii_def)

theorem filter_and_enrich_ages_witness:
  "column_ok sample_column \<and>
   filter_and_enrich kanjize_kanji2number sample_column
     [\<lparr>title = PStr (ascii ''9007199254740993'' @ kara_suffix), publish_date = PStr (ascii ''1995-01-01'')\<rparr>,
      \<lparr>title = PStr (ascii ''abc''), publish_date = PNone\<rparr>,
      \<lparr>title = PStr ([21313, 21313] @ kara_suffix), publish_date = PNone\<rparr>] =
   Inr [\<lparr>source = \<lparr>title = PStr (ascii ''9007199254740993'' @ kara_suffix), publish_date = PStr (ascii ''1995-01-01'')\<rparr>,
          target_age = Some 9007199254740992\<rparr>,
        \<lparr>source = \<lparr>title = PStr ([21313, 21313] @ kara_suffix), publish_date = PNone\<rparr>, target_age = None\<rparr>] \<and>
   extract_age kanjize_kanji2number (PStr (ascii ''9007199254740993'' @ kara_suffix)) = Some 9007199254740993 \<and>
   stored_as (Some 9007199254740993) (Some 9007199254740992) \<and>
   \<lparr>source = \<lparr>title = PStr ([21313, 21313] @ kara_suffix), publish_date = PNone\<rparr>, target_age = None\<rparr>
     \<in> set [\<lparr>source = \<lparr>title = PStr (ascii ''9007199254740993'' @ kara_suffix), publish_date = PStr (ascii ''1995-01-01'')\<rparr>,
          target_age = Some 9007199254740992\<rparr>,
        \<lparr>source = \<lparr>title = PStr ([21313, 21313] @ kara_suffix), publish_date = PNone\<rparr>, target_age = None\<rparr>] \<and>
   map source
     [\<lparr>source = \<lparr>title = PStr (ascii ''9007199254740993'' @ kara_suffix), publish_date = PStr (ascii ''1995-01-01'')\<rparr>,
          target_age = Some 9007199254740992\<rparr>,
        \<lparr>source = \<lparr>title = PStr ([21313, 21313] @ kara_suffix), publish_date = PNone\<rparr>, target_age = None\<rparr>] =
   [\<lparr>title = PStr (ascii ''9007199254740993'' @ kara_suffix), publish_date = PStr (ascii ''1995-01-01'')\<rparr>,
    \<lparr>title = PStr ([21313, 21313] @ kara_suffix), publish_date = PNone\<rparr>] \<and>
   with_age
     [\<lparr>source = \<lparr>title = PStr (ascii ''9007199254740993'' @ kara_suffix), publish_date = PStr (ascii ''1995-01-01'')\<rparr>,
          target_age = Some 9007199254740992\<rparr>,
        \<lparr>source = \<lparr>title = PStr ([21313, 21313] @ kara_suffix), publish_date = PNone\<rparr>, target_age = None\<rparr>] =
   [\<lparr>source = \<lparr>title = PStr (ascii ''9007199254740993'' @ kara_suffix), publish_date = PStr (ascii ''1995-01-01'')\<rparr>,
          target_age = Some 9007199254740992\<rparr>]"
proof -
  let ?r1 = "\<lparr>title = PStr (ascii ''9007199254740993'' @ kara_suffix), publish_date = PStr (ascii ''1995-01-01'')\<rparr>"
  let ?r2 = "\<lparr>title = PStr (ascii ''abc''), publish_date = PNone\<rparr>"
  let ?r3 = "\<lparr>title = PStr ([21313, 21313] @ kara_suffix), publish_date = PNone\<rparr>"
  let ?out = "[\<lparr>source = ?r1, target_age = Some 9007199254740992\<rparr>, \<lparr>source = ?r3, target_age = None\<rparr>]"
  note t = filter_and_enrich_ages[of sample_column kanjize_kanji2number "[?r1, ?r2, ?r3]" ?out
      "Some 9007199254740993" "Some 9007199254740992"]
  have i: "\<forall>r \<in> set [?r1, ?r2, ?r3]. is_kara_pattern (title r) \<longrightarrow>
      in_int64 (extract_age kanjize_kanji2number (title r))"
    by (simp add: big_title_age ten_ten_age[simplified] abc_pattern in_int64_def int64_range_def)
  from t[THEN conjunct2, THEN conjunct1, THEN mp, OF conjI[OF sample_column_ok i]]
  have a: "filter_and_enrich kanjize_kanji2number sample_column [?r1, ?r2, ?r3] = Inr ?out"
    by (simp add: big_title_pattern big_title_age ten_ten_pattern[simplified] ten_ten_age[simplified] abc_pattern
        nearest_double_example)
  note b = t[THEN conjunct1, THEN mp, OF conjI[OF sample_column_ok a]]
  from b have c: "map source ?out = [?r1, ?r3]"
    by (simp add: big_title_pattern ten_ten_pattern[simplified] abc_pattern)
  from t[THEN conjunct2, THEN conjunct2]
  have d: "stored_as (Some 9007199254740993) (Some 9007199254740992)" by simp
  have e: "with_age ?out = [\<lparr>source = ?r1, target_age = Some 9007199254740992\<rparr>]"
    by (simp add: with_age_def)
  from sample_column_ok a c d e big_title_age show ?thesis by simp
qed

text \<open>
  Claim C1 as it is stated fails: the record whose title is the token ten-ten and
  the marker survives the filter-and-enrich step with an absent age.
\<close>

theorem filter_keeps_absent_age:
  "filter_and_enrich kanjize_kanji2number sample_column
     [\<lparr>title = PStr ([21313, 21313] @ kara_suffix), publish_date = PNone\<rparr>] =
   Inr [\<lparr>source = \<lparr>title = PStr ([21313, 21313] @ kara_suffix), publish_date = PNone\<rparr>,
      target_age = None\<rparr>]"
  by (simp add: filter_and_enrich_def sample_column_def ten_ten_pattern[simplified] ten_ten_age[simplified] in_int64_def)

section \<open>Claims about the decade\<close>

lemma search_year_first:
  assumes "length ys = 4" and "list_all is_decimal ys"
  shows "(\<forall>i<length pre. \<not> list_all is_decimal (take 4 (drop i (pre @ ys @ post))))
    \<Longrightarrow> search_year (pre @ ys @ post) = Some ys"
proof (induction pre)
  case Nil
  obtain c s where cs: "ys = c # s" using assms(1) by (cases ys) auto
  have "take 4 (ys @ post) = ys" using assms(1) by simp
  then show ?case using assms unfolding cs by simp
next
  case (Cons c p)
  from Cons.prems have 0: "\<not> list_all is_decimal (take 4 (c # p @ ys @ post))"
    by (metis append_Cons drop0 length_greater_0_conv list.distinct(1))
  have "\<forall>i<length p. \<not> list_all is_decimal (take 4 (drop i (p @ ys @ post)))"
  proof (intro allI impI)
    fix i assume "i < length p"
    then have "Suc i < length (c # p)" by simp
    with Cons.prems have "\<not> list_all is_decimal (take 4 (drop (Suc i) ((c # p) @ ys @ post)))"
      by blast
    then show "\<not> list_all is_decimal (take 4 (drop i (p @ ys @ post)))" by simp
  qed
  from Cons.IH[OF this] have r: "search_year (p @ ys @ post) = Some ys" .
  have "search_year (c # (p @ ys @ post)) = search_year (p @ ys @ post)"
    using 0 by (subst search_year.simps(2)) (simp only: simp_thms if_False)
  with r show ?case by simp
qed

lemma search_year_none:
  "(\<forall>i. i + 4 \<le> length s \<longrightarrow> \<not> list_all is_decimal (take 4 (drop i s)))
    \<Longrightarrow> search_year s = None"
proof (induction s)
  case Nil then show ?case by simp
next
  case (Cons c s)
  have "\<forall>i. i + 4 \<le> length s \<longrightarrow> \<not> list_all is_decimal (take 4 (drop i s))"
  proof (intro allI impI)
    fix i assume "i + 4 \<le> length s"
    then have "Suc i + 4 \<le> length (c # s)" by simp
    with Cons.prems have "\<not> list_all is_decimal (take 4 (drop (Suc i) (c # s)))" by blast
    then show "\<not> list_all is_decimal (take 4 (drop i s))" by simp
  qed
  from Cons.IH[OF this] have r: "search_year s = None" .
  from Cons.prems[rule_format, of 0] have "4 \<le> length (c # s) \<longrightarrow> \<not> list_all is_decimal (take 4 (c # s))"
    by simp
  with r show ?case by auto
qed

lemma search_year_sound:
  "search_year s = Some g \<Longrightarrow> length g = 4 \<and> list_all is_decimal g \<and> sublist g s"
proof (induction s)
  case Nil then show ?case by simp
next
  case (Cons c s)
  show ?case
  proof (cases "4 \<le> length (c # s) \<and> list_all is_decimal (take 4 (c # s))")
    case True
    with Cons.prems have g: "g = take 4 (c # s)" by simp
    have "sublist (take 4 (c # s)) (c # s)" by (rule sublist_take)
    with True g show ?thesis by simp
  next
    case False
    with Cons.prems have "search_year s = Some g" by auto
    from Cons.IH[OF this] show ?thesis by (auto simp: sublist_Cons_right)
  qed
qed

lemma window_in_pre:
  assumes "list_all (\<lambda>c. \<not> is_decimal c) pre"
  shows "\<forall>i<length pre. \<not> list_all is_decimal (take 4 (drop i (pre @ rest)))"
proof (intro allI impI)
  fix i assume i: "i < length pre"
  then have "drop i (pre @ rest) = pre ! i # drop (Suc i) (pre @ rest)"
    by (simp add: Cons_nth_drop_Suc nth_append)
  moreover have "\<not> is_decimal (pre ! i)" using assms i by (simp add: list_all_length)
  ultimately show "\<not> list_all is_decimal (take 4 (drop i (pre @ rest)))" by simp
qed

lemma window_none:
  assumes "list_all (\<lambda>c. \<not> is_decimal c) s"
  shows "\<forall>i. i + 4 \<le> length s \<longrightarrow> \<not> list_all is_decimal (take 4 (drop i s))"
proof (intro allI impI)
  fix i assume "i + 4 \<le> length s"
  then have i: "i < length s" by simp
  then have "drop i s = s ! i # drop (Suc i) s" by (simp add: Cons_nth_drop_Suc)
  moreover have "\<not> is_decimal (s ! i)" using assms i by (simp add: list_all_length)
  ultimately show "\<not> list_all is_decimal (take 4 (drop i s))" by simp
qed

text \<open>
  Claim C7. \<open>extract_decade\<close> takes the first position of the text at which four
  decimal digits stand in a row, reads them as the year and returns the text of
  \<open>(year // 10) * 10\<close> followed by the decade suffix: 1995-01-01 gives the label of
  1990, and in "reprint of 19999" the first four digits, 1999, decide. When no four
  digits stand in a row (as in abcd), and for a missing date, the result is absent.
  The function is total: it returns a label or \<open>None\<close> and raises nothing.
\<close>

theorem extract_decade_first_run:
  "(length ys = 4 \<and> list_all is_decimal ys \<and>
      (\<forall>i<length pre. \<not> list_all is_decimal (take 4 (drop i (pre @ ys @ post))))
     \<longrightarrow> extract_decade (PStr (pre @ ys @ post)) =
          Some (py_str_int (decimal_value ys div 10 * 10) @ decade_suffix)) \<and>
   ((\<forall>i. i + 4 \<le> length s \<longrightarrow> \<not> list_all is_decimal (take 4 (drop i s)))
     \<longrightarrow> extract_decade (PStr s) = None) \<and>
   extract_decade (PStr (ascii ''1995-01-01'')) = Some (ascii ''1990'' @ decade_suffix) \<and>
   extract_decade (PStr (ascii ''reprint of 19999'')) = Some (ascii ''1990'' @ decade_suffix) \<and>
   extract_decade (PStr (ascii ''abcd'')) = None \<and>
   extract_decade PNone = None \<and> extract_decade PNaN = None"
proof (intro conjI impI)
  assume a: "length ys = 4 \<and> list_all is_decimal ys \<and>
      (\<forall>i<length pre. \<not> list_all is_decimal (take 4 (drop i (pre @ ys @ post))))"
  then have "search_year (pre @ ys @ post) = Some ys"
    using search_year_first[of ys pre post] by blast
  moreover have "ys \<noteq> []" using a by auto
  moreover have "py_int ys = Inr (decimal_value ys)"
    using a by (intro py_int_run) (auto simp: int_max_str_digits_def)
  ultimately show "extract_decade (PStr (pre @ ys @ post)) =
          Some (py_str_int (decimal_value ys div 10 * 10) @ decade_suffix)"
    by (simp add: extract_decade_def)
next
  assume "\<forall>i. i + 4 \<le> length s \<longrightarrow> \<not> list_all is_decimal (take 4 (drop i s))"
  then have "search_year s = None" by (rule search_year_none)
  then show "extract_decade (PStr s) = None" by (simp add: extract_decade_def)
next
  show "extract_decade (PStr (ascii ''1995-01-01'')) = Some (ascii ''1990'' @ decade_suffix)"
    by (simp add: extract_decade_def ascii_def char_eval py_int_def decimal_value_def
        digit_val_def py_str_int_def digits_of_nat.simps int_max_str_digits_def)
next
  show "extract_decade (PStr (ascii ''reprint of 19999'')) = Some (ascii ''1990'' @ decade_suffix)"
    by (simp add: extract_decade_def ascii_def char_eval py_int_def decimal_value_def
        digit_val_def py_str_int_def digits_of_nat.simps int_max_str_digits_def)
next
  show "extract_decade (PStr (ascii ''abcd'')) = None"
    by (simp add: extract_decade_def ascii_def char_eval)
qed (simp_all add: extract_decade_def)

theorem extract_decade_first_run_witness:
  "extract_decade (PStr (ascii ''reprint of '' @ ascii ''1999'' @ ascii ''9'')) =
     Some (ascii ''1990'' @ decade_suffix) \<and>
   extract_decade (PStr (ascii ''abcd'')) = None"
proof -
  have 1: "list_all (\<lambda>c. \<not> is_decimal c) (ascii ''reprint of '')"
    by (simp add: ascii_def char_eval)
  have 2: "list_all (\<lambda>c. \<not> is_decimal c) (ascii ''abcd'')"
    by (simp add: ascii_def char_eval)
  have 3: "length (ascii ''1999'') = 4 \<and> list_all is_decimal (ascii ''1999'')"
    by (simp add: ascii_def char_eval)
  have 4: "py_str_int (decimal_value (ascii ''1999'') div 10 * 10) = ascii ''1990''"
    by (simp add: ascii_def decimal_value_def digit_val_def todecimal_def decimal_blocks_def
        py_str_int_def digits_of_nat.simps)
  show ?thesis
    using extract_decade_first_run[of "ascii ''1999''" "ascii ''reprint of ''" "ascii ''9''" "ascii ''abcd''"]
      window_in_pre[OF 1, of "ascii ''1999'' @ ascii ''9''"] window_none[OF 2] 3 4
    by simp
qed

section \<open>Claims about the age zero\<close>

text \<open>
  Claim C10. Every title that contains the digit zero followed by the marker is
  accepted by \<open>is_kara_pattern\<close>, and \<open>extract_age\<close> returns 0 for it when that zero is
  the first digit match of the title (no digit stands right before it and no
  digit match lies to its left); the title made of the zero and the marker alone
  is such a title, so some title containing that substring has the age 0. An
  extracted age is never negative: one that comes from a digit match is the value
  of a digit run, and one that comes from the kanji parser is what the parser
  returns, which is never negative. Ages are therefore non-negative but not
  always positive. A record of age 0 is counted in the first band, 0 to 9.
\<close>

theorem zero_age_extracted:
  "is_kara_pattern (PStr (pre @ 48 # kara_suffix @ post)) \<and>
   (search_run is_decimal kara_suffix pre = None \<and> (pre = [] \<or> \<not> is_decimal (last pre))
      \<longrightarrow> extract_age k (PStr (pre @ 48 # kara_suffix @ post)) = Some 0) \<and>
   (\<exists>u. sublist (48 # kara_suffix) (py_str u) \<and> is_kara_pattern u \<and> extract_age k u = Some 0) \<and>
   (search_run is_decimal kara_suffix (py_str t) \<noteq> None \<and> extract_age k t = Some n
      \<longrightarrow> 0 \<le> n) \<and>
   ((\<forall>tok m. k tok = Inr m \<longrightarrow> 0 \<le> m) \<and> extract_age k t = Some n \<longrightarrow> 0 \<le> n) \<and>
   (extract_age kanjize_kanji2number t = Some n \<longrightarrow> 0 \<le> n) \<and>
   hd (age_groups_of (xs @ Some 0 # ys)) =
     (ascii ''0-9'' @ sai, Suc (length (filter (in_band 0 10) (xs @ ys))))"
proof (intro conjI impI)
  have d: "[48] \<noteq> []" "list_all is_decimal [48]"
    by (simp_all add: is_decimal_def todecimal_def decimal_blocks_def)
  have m: "kara_suffix \<noteq> []" "\<not> is_decimal (hd kara_suffix)"
    using marker_not_decimal by (simp_all add: kara_suffix_def)
  from search_run_complete[OF d m, of pre post]
  show "is_kara_pattern (PStr (pre @ 48 # kara_suffix @ post))"
    by (simp add: is_kara_pattern_def)
next
  assume a: "search_run is_decimal kara_suffix pre = None \<and> (pre = [] \<or> \<not> is_decimal (last pre))"
  have d: "[48] \<noteq> []" "list_all is_decimal [48]"
    by (simp_all add: is_decimal_def todecimal_def decimal_blocks_def)
  have "search_run is_decimal kara_suffix (pre @ [48] @ kara_suffix @ post) = Some [48]"
    using a marker_not_decimal d by (intro search_run_first) (simp_all add: kara_suffix_def)
  then have "extract_age k (PStr (pre @ [48] @ kara_suffix @ post)) = Some (decimal_value [48])"
    using extract_age_digit[of "PStr (pre @ [48] @ kara_suffix @ post)" "[48]" k]
    by (simp add: int_max_str_digits_def)
  moreover have "decimal_value [48] = 0"
    by (simp add: decimal_value_def digit_val_def todecimal_def decimal_blocks_def)
  ultimately show "extract_age k (PStr (pre @ 48 # kara_suffix @ post)) = Some 0" by simp
next
  have d: "[48] \<noteq> []" "list_all is_decimal [48]"
    by (simp_all add: is_decimal_def todecimal_def decimal_blocks_def)
  have m: "kara_suffix \<noteq> []" "\<not> is_decimal (hd kara_suffix)"
    using marker_not_decimal by (simp_all add: kara_suffix_def)
  have s: "search_run is_decimal kara_suffix ([] @ [48] @ kara_suffix @ []) = Some [48]"
    using marker_not_decimal d by (intro search_run_first) (simp_all add: kara_suffix_def)
  then have 1: "is_kara_pattern (PStr (48 # kara_suffix))" by (simp add: is_kara_pattern_def)
  from s have "extract_age k (PStr (48 # kara_suffix)) = Some (decimal_value [48])"
    using extract_age_digit[of "PStr (48 # kara_suffix)" "[48]" k]
    by (simp add: int_max_str_digits_def)
  moreover have "decimal_value [48] = 0"
    by (simp add: decimal_value_def digit_val_def todecimal_def decimal_blocks_def)
  ultimately have 2: "extract_age k (PStr (48 # kara_suffix)) = Some 0" by simp
  have 3: "sublist (48 # kara_suffix) (py_str (PStr (48 # kara_suffix)))" by simp
  from 1 2 3 show "\<exists>u. sublist (48 # kara_suffix) (py_str u) \<and> is_kara_pattern u \<and>
      extract_age k u = Some 0" by blast
next
  assume a: "search_run is_decimal kara_suffix (py_str t) \<noteq> None \<and> extract_age k t = Some n"
  then obtain g where g: "search_run is_decimal kara_suffix (py_str t) = Some g" by auto
  from a have "\<not> py_not t \<and> \<not> pd_isna t" by (auto simp: extract_age_def split: if_splits)
  with g a have "n = decimal_value g" using extract_age_digit[of t g k] by (simp split: if_splits)
  then show "0 \<le> n" by (simp add: decimal_value_nonneg)
next
  assume a: "(\<forall>tok m. k tok = Inr m \<longrightarrow> 0 \<le> m) \<and> extract_age k t = Some n"
  then show "0 \<le> n" using extract_age_nonneg[of k t n] by blast
next
  assume "extract_age kanjize_kanji2number t = Some n"
  then show "0 \<le> n" using extract_age_nonneg[of kanjize_kanji2number t n] kanjize_nonneg by blast
next
  show "hd (age_groups_of (xs @ Some 0 # ys)) =
     (ascii ''0-9'' @ sai, Suc (length (filter (in_band 0 10) (xs @ ys))))"
    by (simp add: age_groups_of_def in_band_def)
qed

theorem zero_age_extracted_witness:
  "extract_age kanjize_kanji2number (PStr ([] @ 48 # kara_suffix @ [32117, 26412])) = Some 0 \<and>
   is_kara_pattern (PStr ([] @ 48 # kara_suffix @ [32117, 26412])) \<and>
   (\<exists>u. sublist (48 # kara_suffix) (py_str u) \<and> is_kara_pattern u \<and>
        extract_age kanjize_kanji2number u = Some 0) \<and>
   (0::int) \<le> 0 \<and>
   hd (age_groups_of ([] @ Some 0 # [])) = (ascii ''0-9'' @ sai, Suc 0)"
proof -
  have 1: "search_run is_decimal kara_suffix [] = None" by simp
  have 2: "search_run is_decimal kara_suffix (py_str (PStr ([] @ 48 # kara_suffix @ [32117, 26412]))) \<noteq> None"
    by (simp add: char_eval)
  have 3: "\<forall>tok m. kanjize_kanji2number tok = Inr m \<longrightarrow> 0 \<le> m"
    using kanjize_nonneg by blast
  note t = zero_age_extracted[of "[]" "[32117, 26412]" kanjize_kanji2number
      "PStr ([] @ 48 # kara_suffix @ [32117, 26412])" 0 "[]" "[]"]
  show ?thesis using t 1 2 3 by simp
qed

section \<open>Facts about sorting and counting\<close>

lemma zip_upt_entry: "(c, i) \<in> set (zip cs [0..<length cs]) \<Longrightarrow> i < length cs \<and> cs ! i = c"
  by (auto simp: set_zip)

lemma mset_snd_sort_key: "mset (map snd (sort_key k (zip cs [0..<length cs]))) = mset [0..<length cs]"
proof -
  have "mset (map snd (sort_key k (zip cs [0..<length cs]))) =
        image_mset snd (mset (zip cs [0..<length cs]))" by (simp only: mset_map mset_sort)
  also have "\<dots> = mset (map snd (zip cs [0..<length cs]))" by (simp only: mset_map)
  also have "map snd (zip cs [0..<length cs]) = [0..<length cs]" by (rule map_snd_zip) simp
  finally show ?thesis .
qed

lemma stable_argsort_desc_ok: "argsort_desc_ok stable_argsort_desc"
  unfolding argsort_desc_ok_def
proof (intro allI conjI)
  fix cs :: "nat list"
  let ?zs = "zip cs [0..<length cs]"
  let ?ys = "sort_key (\<lambda>p. - int (fst p)) ?zs"
  show "mset (stable_argsort_desc cs) = mset [0..<length cs]"
    unfolding stable_argsort_desc_def by (rule mset_snd_sort_key)
  have s: "sorted_wrt (\<lambda>a b. - int (fst a) \<le> - int (fst b)) ?ys"
    using sorted_sort_key[of "\<lambda>p. - int (fst p)" ?zs] by (simp add: sorted_map)
  have "sorted_wrt (\<lambda>a b. cs ! snd b \<le> cs ! snd a) ?ys"
  proof (rule sorted_wrt_mono_rel[OF _ s])
    fix a b assume "a \<in> set ?ys" "b \<in> set ?ys" "- int (fst a) \<le> - int (fst b)"
    then have "a \<in> set ?zs" "b \<in> set ?zs" "fst b \<le> fst a" by simp_all
    then show "cs ! snd b \<le> cs ! snd a"
      using zip_upt_entry[of "fst a" "snd a" cs] zip_upt_entry[of "fst b" "snd b" cs] by simp
  qed
  then show "sorted_wrt (\<lambda>i j. cs ! j \<le> cs ! i) (stable_argsort_desc cs)"
    unfolding stable_argsort_desc_def by (simp add: sorted_wrt_map)
qed

lemma sort_values_desc_mset:
  assumes "argsort_desc_ok f"
  shows "mset (sort_values_desc f tab) = mset tab"
proof -
  let ?p = "f (map snd tab)"
  have p: "mset ?p = mset [0..<length tab]" using assms by (simp add: argsort_desc_ok_def)
  have "mset (map (\<lambda>i. tab ! i) ?p) = image_mset (\<lambda>i. tab ! i) (mset ?p)" by simp
  also have "\<dots> = image_mset (\<lambda>i. tab ! i) (mset [0..<length tab])" by (simp only: p)
  also have "\<dots> = mset (map (\<lambda>i. tab ! i) [0..<length tab])" by simp
  also have "\<dots> = mset tab" by (simp only: map_nth)
  finally show ?thesis by (simp add: sort_values_desc_def)
qed

lemma sort_values_desc_sorted:
  assumes "argsort_desc_ok f"
  shows "sorted_wrt (\<lambda>x y. snd y \<le> snd x) (sort_values_desc f tab)"
proof -
  let ?cs = "map snd tab"
  let ?p = "f ?cs"
  have p: "mset ?p = mset [0..<length tab]" using assms by (simp add: argsort_desc_ok_def)
  then have "set ?p = set [0..<length tab]" by (rule mset_eq_setD)
  then have r: "\<And>i. i \<in> set ?p \<Longrightarrow> i < length tab" by simp
  have s: "sorted_wrt (\<lambda>i j. ?cs ! j \<le> ?cs ! i) ?p"
    using assms by (simp add: argsort_desc_ok_def)
  have "sorted_wrt (\<lambda>i j. snd (tab ! j) \<le> snd (tab ! i)) ?p"
  proof (rule sorted_wrt_mono_rel[OF _ s])
    fix i j assume "i \<in> set ?p" "j \<in> set ?p" "?cs ! j \<le> ?cs ! i"
    then show "snd (tab ! j) \<le> snd (tab ! i)" using r by simp
  qed
  then show ?thesis by (simp add: sort_values_desc_def sorted_wrt_map)
qed

lemma sort_values_desc_Nil: "argsort_desc_ok f \<Longrightarrow> sort_values_desc f [] = []"
  using sort_values_desc_mset[of f "[]"] by simp

lemma count_table_distinct: "distinct (map fst (count_table xs))"
  by (simp add: count_table_def comp_def)

lemma count_table_entry: "(v, c) \<in> set (count_table xs) \<Longrightarrow> v \<in> set xs \<and> c = count_list xs v"
  by (auto simp: count_table_def)

lemma count_table_keys: "set (map fst (count_table xs)) = set xs"
  by (auto simp: count_table_def comp_def)

lemma age_counts_of_mset:
  assumes "argsort_desc_ok f"
  shows "mset (age_counts_of f col) = mset (count_table (dropna col))"
  by (simp add: age_counts_of_def value_counts_def sort_values_desc_mset[OF assms])

section \<open>Claims about the aggregation\<close>

lemma runtime_argsort [simp]: "argsort_desc (sample_runtime f) = f"
  by (simp add: sample_runtime_def)

lemma age_counts_of_Nil: "argsort_desc_ok f \<Longrightarrow> age_counts_of f [] = []"
  by (simp add: age_counts_of_def value_counts_def count_table_def sort_values_desc_Nil)

lemma value_counts_Nil: "argsort_desc_ok f \<Longrightarrow> value_counts f [] = []"
  by (simp add: value_counts_def count_table_def sort_values_desc_Nil)

lemma age_groups_of_Nil:
  "age_groups_of [] =
     [(ascii ''0-9'' @ sai, 0), (ascii ''10-19'' @ sai, 0), (ascii ''20-29'' @ sai, 0),
      (ascii ''30-39'' @ sai, 0), (ascii ''40-49'' @ sai, 0), (ascii ''50-59'' @ sai, 0),
      (ascii ''60-69'' @ sai, 0), (ascii ''70-79'' @ sai, 0), (ascii ''80-89'' @ sai, 0),
      (ascii ''90'' @ sai_ijou, 0)]"
  by (simp add: age_groups_of_def)

text \<open>
  Claim C6. On an empty batch the aggregation returns a summary and does not fail:
  the total is 0, the mean, the minimum, the maximum and the median are 0, the
  table of the top ages is empty, the two peak fields are absent, and every age
  band counts 0. The decade table is absent when the frame has no decade column
  and empty when it has one.
\<close>

theorem aggregate_empty_batch:
  assumes "argsort_desc_ok (argsort_desc lib)"
  shows "aggregate_statistics lib \<lparr>age_col = [], decade_col = None\<rparr> =
     \<lparr>total_books = Some (Scalar (VInt 0)), mean_age = Some (Scalar (VInt 0)),
      min_age = Some (Scalar (VInt 0)), max_age = Some (Scalar (VInt 0)),
      median_age = Some (Scalar (VInt 0)), top_ages = Some (Table []),
      peak_age = None, peak_count = None, decade_counts = None,
      age_groups = Some (str_table (age_groups_of []))\<rparr> \<and>
    aggregate_statistics lib \<lparr>age_col = [], decade_col = Some []\<rparr> =
     \<lparr>total_books = Some (Scalar (VInt 0)), mean_age = Some (Scalar (VInt 0)),
      min_age = Some (Scalar (VInt 0)), max_age = Some (Scalar (VInt 0)),
      median_age = Some (Scalar (VInt 0)), top_ages = Some (Table []),
      peak_age = None, peak_count = None, decade_counts = Some (Table []),
      age_groups = Some (str_table (age_groups_of []))\<rparr> \<and>
    map snd (age_groups_of []) = replicate 10 0"
  using age_counts_of_Nil[OF assms] value_counts_Nil[OF assms]
  by (simp add: aggregate_statistics_def int_table_def str_table_def age_groups_of_Nil
      numeral_eq_Suc)

theorem aggregate_empty_batch_witness:
  "aggregate_statistics (sample_runtime stable_argsort_desc) \<lparr>age_col = [], decade_col = None\<rparr> =
     \<lparr>total_books = Some (Scalar (VInt 0)), mean_age = Some (Scalar (VInt 0)),
      min_age = Some (Scalar (VInt 0)), max_age = Some (Scalar (VInt 0)),
      median_age = Some (Scalar (VInt 0)), top_ages = Some (Table []),
      peak_age = None, peak_count = None, decade_counts = None,
      age_groups = Some (str_table (age_groups_of []))\<rparr>"
  using aggregate_empty_batch[of "sample_runtime stable_argsort_desc"] stable_argsort_desc_ok
  by simp

lemma band_step:
  assumes "0 \<le> v"
  shows "sum_list (map snd (age_groups_of (Some v # col))) = Suc (sum_list (map snd (age_groups_of col)))"
proof -
  consider "v < 10" | "10 \<le> v" "v < 20" | "20 \<le> v" "v < 30" | "30 \<le> v" "v < 40"
    | "40 \<le> v" "v < 50" | "50 \<le> v" "v < 60" | "60 \<le> v" "v < 70" | "70 \<le> v" "v < 80"
    | "80 \<le> v" "v < 90" | "90 \<le> v" by linarith
  then show ?thesis using assms
    by cases (simp_all add: age_groups_of_def in_band_def at_least_def)
qed

lemma band_sum:
  "(\<forall>a \<in> set col. \<exists>v. a = Some v \<and> 0 \<le> v) \<Longrightarrow>
   sum_list (map snd (age_groups_of col)) = length col"
proof (induction col)
  case Nil then show ?case by (simp add: age_groups_of_def)
next
  case (Cons a col)
  then obtain v where v: "a = Some v" "0 \<le> v" by auto
  from Cons have "sum_list (map snd (age_groups_of col)) = length col" by simp
  with band_step[OF v(2), of col] v(1) show ?case by simp
qed

text \<open>
  Claim C5. When every record has an age that is present (and not negative, as
  every age that \<open>extract_age\<close> returns is), the counts of the age bands sum to the
  total. This is so for every batch that the filter-and-enrich step and the
  \<open>notna\<close> filter produce: the ages they leave are present and not negative,
  whatever the input records are. The total is the number of records, the bands
  are listed in ascending order whatever their counts, band \<open>i\<close> counts the records
  whose age is at least \<open>10 i\<close> and less than \<open>10 i + 10\<close>, and the last band counts
  the ages from 90.
\<close>

theorem age_bands_partition:
  "((\<forall>a \<in> set (age_col df). \<exists>v. a = Some v \<and> 0 \<le> v) \<longrightarrow>
      sum_list (map snd (age_groups_of (age_col df))) = length (age_col df)) \<and>
   (column_ok tc \<and> (\<forall>tok m. k tok = Inr m \<longrightarrow> 0 \<le> m) \<and>
    filter_and_enrich k tc batch = Inr rows \<longrightarrow>
      sum_list (map snd (age_groups_of (map target_age (with_age rows)))) =
        length (with_age rows) \<and>
      total_books (aggregate_statistics lib
          \<lparr>age_col = map target_age (with_age rows), decade_col = dc\<rparr>) =
        Some (Scalar (VInt (int (length (with_age rows)))))) \<and>
   (kanjize_kanji2number tok = Inr m \<longrightarrow> 0 \<le> m) \<and>
   total_books (aggregate_statistics lib df) = Some (Scalar (VInt (int (length (age_col df))))) \<and>
   age_groups (aggregate_statistics lib df) = Some (str_table (age_groups_of (age_col df))) \<and>
   map fst (age_groups_of (age_col df)) =
     [ascii ''0-9'' @ sai, ascii ''10-19'' @ sai, ascii ''20-29'' @ sai, ascii ''30-39'' @ sai,
      ascii ''40-49'' @ sai, ascii ''50-59'' @ sai, ascii ''60-69'' @ sai, ascii ''70-79'' @ sai,
      ascii ''80-89'' @ sai, ascii ''90'' @ sai_ijou] \<and>
   map snd (age_groups_of (age_col df)) =
     map (\<lambda>i. length (filter (in_band (10 * int i) (10 * int i + 10)) (age_col df))) [0..<9] @
     [length (filter (at_least 90) (age_col df))]"
proof (intro conjI impI)
  assume "\<forall>a \<in> set (age_col df). \<exists>v. a = Some v \<and> 0 \<le> v"
  then show "sum_list (map snd (age_groups_of (age_col df))) = length (age_col df)"
    by (rule band_sum)
next
  assume a: "column_ok tc \<and> (\<forall>tok m. k tok = Inr m \<longrightarrow> 0 \<le> m) \<and>
    filter_and_enrich k tc batch = Inr rows"
  then have "\<forall>a \<in> set (map target_age (with_age rows)). \<exists>v. a = Some v \<and> 0 \<le> v"
    by (intro pipeline_ages_nonneg[of tc k batch rows]) auto
  from band_sum[OF this]
  show "sum_list (map snd (age_groups_of (map target_age (with_age rows)))) =
        length (with_age rows)" by simp
next
  assume "kanjize_kanji2number tok = Inr m"
  then show "0 \<le> m" by (rule kanjize_nonneg)
next
  show "map snd (age_groups_of (age_col df)) =
     map (\<lambda>i. length (filter (in_band (10 * int i) (10 * int i + 10)) (age_col df))) [0..<9] @
     [length (filter (at_least 90) (age_col df))]"
  proof -
    have u: "[0..<9] = [0, 1, 2, 3, 4, 5, 6, 7, 8::nat]" by code_simp
    show ?thesis unfolding u by (simp add: age_groups_of_def)
  qed
qed (simp_all add: aggregate_statistics_def Let_def age_groups_of_def)

lemma thirteen_title_pattern: "is_kara_pattern (PStr ([49, 51] @ kara_suffix @ [21746, 23398]))"
  by (simp add: is_kara_pattern_def char_eval)

lemma thirteen_title_age:
  "extract_age k (PStr ([49, 51] @ kara_suffix @ [21746, 23398])) = Some 13"
  by (simp add: extract_age_def char_eval py_int_def decimal_value_def digit_val_def
      int_max_str_digits_def)

lemma sample_batch_rows:
  "filter_and_enrich kanjize_kanji2number sample_column
     [\<lparr>title = PStr ([49, 51] @ kara_suffix @ [21746, 23398]), publish_date = PNone\<rparr>,
      \<lparr>title = PStr (ascii ''abc''), publish_date = PNone\<rparr>,
      \<lparr>title = PStr ([21313, 21313] @ kara_suffix), publish_date = PNone\<rparr>] =
   Inr [\<lparr>source = \<lparr>title = PStr ([49, 51] @ kara_suffix @ [21746, 23398]), publish_date = PNone\<rparr>,
          target_age = Some 13\<rparr>,
        \<lparr>source = \<lparr>title = PStr ([21313, 21313] @ kara_suffix), publish_date = PNone\<rparr>,
          target_age = None\<rparr>]"
  by (simp add: filter_and_enrich_def sample_column_def thirteen_title_pattern[simplified]
      thirteen_title_age[simplified] ten_ten_pattern[simplified] ten_ten_age[simplified]
      abc_pattern in_int64_def int64_range_def nearest_double_small)

theorem age_bands_partition_witness:
  "sum_list (map snd (age_groups_of (age_col \<lparr>age_col = [Some 13, Some 13, Some 15, Some 20], decade_col = None\<rparr>))) = 4 \<and>
   map snd (age_groups_of [Some 13, Some 13, Some 15, Some 20]) = [0, 3, 1, 0, 0, 0, 0, 0, 0, 0] \<and>
   column_ok sample_column \<and>
   with_age
     [\<lparr>source = \<lparr>title = PStr ([49, 51] @ kara_suffix @ [21746, 23398]), publish_date = PNone\<rparr>,
        target_age = Some 13\<rparr>,
      \<lparr>source = \<lparr>title = PStr ([21313, 21313] @ kara_suffix), publish_date = PNone\<rparr>,
        target_age = None\<rparr>] =
     [\<lparr>source = \<lparr>title = PStr ([49, 51] @ kara_suffix @ [21746, 23398]), publish_date = PNone\<rparr>,
        target_age = Some 13\<rparr>] \<and>
   sum_list (map snd (age_groups_of [Some 13])) = 1 \<and>
   total_books (aggregate_statistics (sample_runtime stable_argsort_desc)
       \<lparr>age_col = [Some 13], decade_col = None\<rparr>) = Some (Scalar (VInt 1))"
proof -
  let ?rows = "[\<lparr>source = \<lparr>title = PStr ([49, 51] @ kara_suffix @ [21746, 23398]), publish_date = PNone\<rparr>,
        target_age = Some 13\<rparr>,
      \<lparr>source = \<lparr>title = PStr ([21313, 21313] @ kara_suffix), publish_date = PNone\<rparr>,
        target_age = None\<rparr>]"
  let ?batch = "[\<lparr>title = PStr ([49, 51] @ kara_suffix @ [21746, 23398]), publish_date = PNone\<rparr>,
      \<lparr>title = PStr (ascii ''abc''), publish_date = PNone\<rparr>,
      \<lparr>title = PStr ([21313, 21313] @ kara_suffix), publish_date = PNone\<rparr>]"
  note t = age_bands_partition[of "\<lparr>age_col = [Some 13, Some 13, Some 15, Some 20], decade_col = None\<rparr>"
      sample_column kanjize_kanji2number ?batch ?rows "sample_runtime stable_argsort_desc" None
      "[21313, 19977]" 13]
  have 1: "map snd (age_groups_of [Some 13, Some 13, Some 15, Some 20]) = [0, 3, 1, 0, 0, 0, 0, 0, 0, 0]"
    by (simp add: age_groups_of_def in_band_def at_least_def)
  have h: "\<forall>a \<in> set (age_col \<lparr>age_col = [Some 13, Some 13, Some 15, Some 20], decade_col = None\<rparr>).
      \<exists>v. a = Some v \<and> 0 \<le> v" by simp
  from t[THEN conjunct1, THEN mp, OF h]
  have 2: "sum_list (map snd (age_groups_of (age_col \<lparr>age_col = [Some 13, Some 13, Some 15, Some 20], decade_col = None\<rparr>))) = 4"
    by simp
  have w: "with_age ?rows =
     [\<lparr>source = \<lparr>title = PStr ([49, 51] @ kara_suffix @ [21746, 23398]), publish_date = PNone\<rparr>,
        target_age = Some 13\<rparr>]"
    by (simp add: with_age_def)
  have n: "\<forall>tok m. kanjize_kanji2number tok = Inr m \<longrightarrow> 0 \<le> m"
    using kanjize_nonneg by blast
  from t[THEN conjunct2, THEN conjunct1, THEN mp, OF conjI[OF sample_column_ok conjI[OF n sample_batch_rows]]]
  have 3: "sum_list (map snd (age_groups_of [Some 13])) = 1 \<and>
     total_books (aggregate_statistics (sample_runtime stable_argsort_desc)
       \<lparr>age_col = [Some 13], decade_col = None\<rparr>) = Some (Scalar (VInt 1))"
    unfolding w by simp
  from 1 2 3 w sample_column_ok show ?thesis by simp
qed

lemma age_counts_stable_example:
  "age_counts_of stable_argsort_desc [Some 13, Some 13, Some 15, Some 20] = [(13, 2), (15, 1), (20, 1)]"
  by code_simp


section \<open>Facts about the prompt\<close>

lemma sublist_chain:
  assumes "sublist xs ys" and "sublist ys zs"
  shows "sublist xs zs"
proof -
  from assms(1) obtain ps ss where 1: "ys = ps @ xs @ ss" by (auto simp: sublist_def)
  from assms(2) obtain qs ts where 2: "zs = qs @ ys @ ts" by (auto simp: sublist_def)
  have "zs = (qs @ ps) @ xs @ (ss @ ts)" by (simp add: 1 2)
  then show ?thesis by (simp only: sublist_appendI)
qed

lemma template_holes:
  "sublist tot (prompt_template tot m mn mx md pk pc tp bands dec ins sty)"
  "sublist m (prompt_template tot m mn mx md pk pc tp bands dec ins sty)"
  "sublist mn (prompt_template tot m mn mx md pk pc tp bands dec ins sty)"
  "sublist mx (prompt_template tot m mn mx md pk pc tp bands dec ins sty)"
  "sublist md (prompt_template tot m mn mx md pk pc tp bands dec ins sty)"
  "sublist pk (prompt_template tot m mn mx md pk pc tp bands dec ins sty)"
  "sublist pc (prompt_template tot m mn mx md pk pc tp bands dec ins sty)"
  "sublist tp (prompt_template tot m mn mx md pk pc tp bands dec ins sty)"
  "sublist bands (prompt_template tot m mn mx md pk pc tp bands dec ins sty)"
  "sublist dec (prompt_template tot m mn mx md pk pc tp bands dec ins sty)"
  "sublist ins (prompt_template tot m mn mx md pk pc tp bands dec ins sty)"
  "sublist sty (prompt_template tot m mn mx md pk pc tp bands dec ins sty)"
  unfolding prompt_template_def
  by (simp_all add: sublist_append)

lemma join_contains: "x \<in> set xs \<Longrightarrow> sublist x (join sep xs)"
proof (induction sep xs rule: join.induct)
  case (1 sep) then show ?case by simp
next
  case (2 sep y) then show ?case by simp
next
  case (3 sep y z zs)
  show ?case
  proof (cases "x = y")
    case True then show ?thesis by simp
  next
    case False
    with 3 have "sublist x (join sep (z # zs))" by simp
    then show ?thesis by (simp add: sublist_append)
  qed
qed

lemma table_line_contains:
  "sublist (py_str_scalar lib (fst kv)) (table_line lib mid kv)"
  "sublist (py_str_scalar lib (snd kv)) (table_line lib mid kv)"
  by (simp_all add: table_line_def sublist_append)

lemma table_lines_contains:
  assumes "kv \<in> set tab"
  shows "sublist (table_line lib mid kv) (table_lines lib mid tab)"
  unfolding table_lines_def using assms by (intro join_contains) simp

section \<open>Claims about the prompt and the generation call\<close>

lemma fmt_1f_ok:
  "(\<exists>m. fmt_1f lib v = Inr m) =
   ((\<exists>x. v = Scalar (VFloat x)) \<or> (\<exists>i x. v = Scalar (VInt i) \<and> float_of_int lib i = Inr x))"
  by (auto simp: fmt_1f_def split: field.splits scalar.splits sum.splits)

lemma py_items_ok: "(py_items v = Inr t) = (v = Table t)"
  by (auto simp: py_items_def split: field.splits scalar.splits)

lemma build_prompt_success:
  assumes "fmt_1f lib (dict_get (mean_age st) (Scalar (VInt 0))) = Inr m"
    and "fmt_1f lib (dict_get (median_age st) (Scalar (VInt 0))) = Inr md"
    and "py_items (dict_get (top_ages st) (Table [])) = Inr tp"
    and "py_items (dict_get (age_groups st) (Table [])) = Inr bands"
    and "py_truth lib (decade_counts st) \<longrightarrow>
           py_items (dict_get (decade_counts st) (Scalar VNone)) = Inr dec"
  shows "build_prompt lib st sty ins =
     Inr (prompt_template
            (py_str_field lib (dict_get (total_books st) (Scalar (VInt 0)))) m
            (py_str_field lib (dict_get (min_age st) (Scalar (VInt 0))))
            (py_str_field lib (dict_get (max_age st) (Scalar (VInt 0)))) md
            (py_str_field lib (dict_get (peak_age st) (Scalar (VStr not_available))))
            (py_str_field lib (dict_get (peak_count st) (Scalar (VInt 0))))
            (table_lines lib sai_colon tp) (table_lines lib (ascii '': '') bands)
            (if py_truth lib (decade_counts st) then table_lines lib (ascii '': '') dec else no_data)
            ins sty)"
  using assms by (simp add: build_prompt_def bind_exn_def)

lemma build_prompt_ok_iff:
  "(\<exists>p. build_prompt lib st sty ins = Inr p) =
   ((\<exists>m. fmt_1f lib (dict_get (mean_age st) (Scalar (VInt 0))) = Inr m) \<and>
    (\<exists>md. fmt_1f lib (dict_get (median_age st) (Scalar (VInt 0))) = Inr md) \<and>
    (\<exists>tp. py_items (dict_get (top_ages st) (Table [])) = Inr tp) \<and>
    (\<exists>bands. py_items (dict_get (age_groups st) (Table [])) = Inr bands) \<and>
    (py_truth lib (decade_counts st) \<longrightarrow>
       (\<exists>dec. py_items (dict_get (decade_counts st) (Scalar VNone)) = Inr dec)))"
  by (auto simp: build_prompt_def bind_exn_def split: sum.splits if_splits)

lemma aggregate_builds:
  assumes "float_of_int lib 0 = Inr z"
  shows "\<exists>p. build_prompt lib (aggregate_statistics lib df) sty ins = Inr p"
proof -
  let ?st = "aggregate_statistics lib df"
  have 1: "\<exists>m. fmt_1f lib (dict_get (mean_age ?st) (Scalar (VInt 0))) = Inr m"
    using assms by (simp add: aggregate_statistics_def Let_def dict_get_def fmt_1f_def)
  have 2: "\<exists>m. fmt_1f lib (dict_get (median_age ?st) (Scalar (VInt 0))) = Inr m"
    using assms by (simp add: aggregate_statistics_def Let_def dict_get_def fmt_1f_def)
  have 3: "\<exists>t. py_items (dict_get (top_ages ?st) (Table [])) = Inr t"
    by (simp add: aggregate_statistics_def Let_def dict_get_def py_items_def int_table_def)
  have 4: "\<exists>t. py_items (dict_get (age_groups ?st) (Table [])) = Inr t"
    by (simp add: aggregate_statistics_def Let_def dict_get_def py_items_def str_table_def)
  have 5: "\<exists>t. py_items (dict_get (decade_counts ?st) (Scalar VNone)) = Inr t"
    if "py_truth lib (decade_counts ?st)"
    using that
    by (auto simp: aggregate_statistics_def Let_def dict_get_def py_items_def str_table_def py_truth_def
        split: option.splits)
  from 1 2 3 4 5 show ?thesis by (simp only: build_prompt_ok_iff) blast
qed

lemma build_prompt_mean_fails:
  "fmt_1f lib (dict_get (mean_age st) (Scalar (VInt 0))) = Inl e \<Longrightarrow>
   build_prompt lib st sty ins = Inl e"
  by (simp add: build_prompt_def bind_exn_def)

lemma build_prompt_median_fails:
  "fmt_1f lib (dict_get (mean_age st) (Scalar (VInt 0))) = Inr m \<Longrightarrow>
   fmt_1f lib (dict_get (median_age st) (Scalar (VInt 0))) = Inl e \<Longrightarrow>
   build_prompt lib st sty ins = Inl e"
  by (simp add: build_prompt_def bind_exn_def)

lemma empty_stats_builds:
  assumes "float_of_int lib 0 = Inr z"
  shows "build_prompt lib empty_stats sty ins =
     Inr (prompt_template (ascii ''0'') (format_1f lib z) (ascii ''0'') (ascii ''0'')
            (format_1f lib z) (ascii ''N/A'') (ascii ''0'') [] [] no_data ins sty)"
proof -
  have z: "py_str_int 0 = ascii ''0''" by (simp add: py_str_int_def digits_of_nat.simps ascii_def)
  have n: "not_available = ascii ''N/A''" by (simp add: not_available_def ascii_def)
  show ?thesis
    using assms
    by (simp add: build_prompt_def bind_exn_def empty_stats_def dict_get_def fmt_1f_def
        py_items_def py_truth_def py_str_field_def py_str_scalar_def table_lines_def z n)
qed

text \<open>
  Claim C8, as the code has it. When the two \<open>.1f\<close> formats and the \<open>.items()\<close>
  calls succeed, the prompt is built and it is the template of lines 188 to 221
  with its placeholders filled, in this order, by \<open>str\<close> of the total, the \<open>.1f\<close>
  format of the mean, \<open>str\<close> of the minimum and of the maximum, the \<open>.1f\<close> format
  of the median, \<open>str\<close> of the peak age and of the books at the peak, and the
  lines of the three tables, one line per entry, which holds \<open>str\<close> of its key and
  of its count (the text of an \<open>int\<close> is its decimal numeral); so the prompt
  contains the text of every value of the summary. A missing key takes the
  default of its \<open>get\<close>: the text 0 for the total, the minimum, the maximum and
  the books at the peak, the \<open>.1f\<close> format of 0 for the mean and the median, but
  the text N/A for the peak age; no line at all for a missing table of the top
  ages or of the bands; and the no-data text for a decade table that is missing
  or empty. The formats succeed exactly on a float and on an \<open>int\<close> that converts
  to a float, \<open>.items()\<close> exactly on a table; a summary of \<open>aggregate_statistics\<close>
  always builds. Otherwise the prompt is not built: the first expression that
  raises decides, the function returns the error text, no article, and does not
  call the backend.
\<close>

theorem prompt_renders_summary:
  "(fmt_1f lib (dict_get (mean_age st) (Scalar (VInt 0))) = Inr m \<and>
    fmt_1f lib (dict_get (median_age st) (Scalar (VInt 0))) = Inr md \<and>
    py_items (dict_get (top_ages st) (Table [])) = Inr tp \<and>
    py_items (dict_get (age_groups st) (Table [])) = Inr bands \<and>
    (py_truth lib (decade_counts st) \<longrightarrow>
       py_items (dict_get (decade_counts st) (Scalar VNone)) = Inr dec)
    \<longrightarrow> build_prompt lib st sty ins =
          Inr (prompt_template
                 (py_str_field lib (dict_get (total_books st) (Scalar (VInt 0)))) m
                 (py_str_field lib (dict_get (min_age st) (Scalar (VInt 0))))
                 (py_str_field lib (dict_get (max_age st) (Scalar (VInt 0)))) md
                 (py_str_field lib (dict_get (peak_age st) (Scalar (VStr not_available))))
                 (py_str_field lib (dict_get (peak_count st) (Scalar (VInt 0))))
                 (table_lines lib sai_colon tp) (table_lines lib (ascii '': '') bands)
                 (if py_truth lib (decade_counts st) then table_lines lib (ascii '': '') dec
                  else no_data)
                 ins sty) \<and>
        (\<exists>p. build_prompt lib st sty ins = Inr p \<and>
          sublist (py_str_field lib (dict_get (total_books st) (Scalar (VInt 0)))) p \<and>
          sublist m p \<and>
          sublist (py_str_field lib (dict_get (min_age st) (Scalar (VInt 0)))) p \<and>
          sublist (py_str_field lib (dict_get (max_age st) (Scalar (VInt 0)))) p \<and>
          sublist md p \<and>
          sublist (py_str_field lib (dict_get (peak_age st) (Scalar (VStr not_available)))) p \<and>
          sublist (py_str_field lib (dict_get (peak_count st) (Scalar (VInt 0)))) p \<and>
          (\<forall>kv \<in> set tp. sublist (table_line lib sai_colon kv) p) \<and>
          (\<forall>kv \<in> set bands. sublist (table_line lib (ascii '': '') kv) p) \<and>
          (py_truth lib (decade_counts st) \<longrightarrow>
             (\<forall>kv \<in> set dec. sublist (table_line lib (ascii '': '') kv) p)) \<and>
          (\<not> py_truth lib (decade_counts st) \<longrightarrow> sublist no_data p))) \<and>
   prompt_template books mean_text minimum maximum median_text peak peak_books top_text
       band_text decade_text ins sty =
     prompt_intro @ books @ prompt_mean @ mean_text @ prompt_min @ minimum @
     prompt_max @ maximum @ prompt_median @ median_text @ prompt_peak @ peak @
     prompt_peak_count @ peak_books @ prompt_top @ top_text @ prompt_bands @ band_text @
     prompt_decades @ decade_text @ ins @ prompt_outline @ sty \<and>
   table_lines lib mid tab = join [10] (map (table_line lib mid) tab) \<and>
   table_lines lib mid [] = [] \<and>
   table_line lib mid kv =
     ascii ''- '' @ py_str_scalar lib (fst kv) @ mid @ py_str_scalar lib (snd kv) @ satsu \<and>
   sublist (py_str_scalar lib (fst kv)) (table_line lib mid kv) \<and>
   sublist (py_str_scalar lib (snd kv)) (table_line lib mid kv) \<and>
   py_str_field lib (Scalar (VInt i)) = py_str_int i \<and>
   dict_get None d = d \<and>
   py_str_field lib (dict_get None (Scalar (VInt 0))) = ascii ''0'' \<and>
   py_str_field lib (dict_get None (Scalar (VStr not_available))) = ascii ''N/A'' \<and>
   py_items (dict_get None (Table [])) = Inr [] \<and>
   \<not> py_truth lib None \<and> \<not> py_truth lib (Some (Table [])) \<and>
   (float_of_int lib 0 = Inr z \<longrightarrow>
      build_prompt lib empty_stats sty ins =
        Inr (prompt_template (ascii ''0'') (format_1f lib z) (ascii ''0'') (ascii ''0'')
               (format_1f lib z) (ascii ''N/A'') (ascii ''0'') [] [] no_data ins sty)) \<and>
   ((\<exists>p. build_prompt lib st sty ins = Inr p) =
    ((\<exists>m. fmt_1f lib (dict_get (mean_age st) (Scalar (VInt 0))) = Inr m) \<and>
     (\<exists>md. fmt_1f lib (dict_get (median_age st) (Scalar (VInt 0))) = Inr md) \<and>
     (\<exists>tp. py_items (dict_get (top_ages st) (Table [])) = Inr tp) \<and>
     (\<exists>bands. py_items (dict_get (age_groups st) (Table [])) = Inr bands) \<and>
     (py_truth lib (decade_counts st) \<longrightarrow>
        (\<exists>dec. py_items (dict_get (decade_counts st) (Scalar VNone)) = Inr dec)))) \<and>
   ((\<exists>t. fmt_1f lib v = Inr t) =
    ((\<exists>x. v = Scalar (VFloat x)) \<or> (\<exists>i x. v = Scalar (VInt i) \<and> float_of_int lib i = Inr x))) \<and>
   ((py_items v = Inr t) = (v = Table t)) \<and>
   (fmt_1f lib (dict_get (mean_age st) (Scalar (VInt 0))) = Inl e
      \<longrightarrow> build_prompt lib st sty ins = Inl e) \<and>
   (fmt_1f lib (dict_get (mean_age st) (Scalar (VInt 0))) = Inr m \<and>
    fmt_1f lib (dict_get (median_age st) (Scalar (VInt 0))) = Inl e
      \<longrightarrow> build_prompt lib st sty ins = Inl e) \<and>
   (float_of_int lib 0 = Inr z \<longrightarrow>
      (\<exists>p. build_prompt lib (aggregate_statistics lib df) sty ins = Inr p)) \<and>
   (key \<noteq> [] \<and>
    build_prompt lib st (style_instruction_of ws) (user_insights_section_of ui) = Inl (Exn msg)
    \<longrightarrow> generate_article_with_gemini lib (Inr (Some key)) generate s st ws ui =
          ((None, Some (error_prefix @ msg)), s))"
proof (intro conjI impI)
  assume a: "fmt_1f lib (dict_get (mean_age st) (Scalar (VInt 0))) = Inr m \<and>
    fmt_1f lib (dict_get (median_age st) (Scalar (VInt 0))) = Inr md \<and>
    py_items (dict_get (top_ages st) (Table [])) = Inr tp \<and>
    py_items (dict_get (age_groups st) (Table [])) = Inr bands \<and>
    (py_truth lib (decade_counts st) \<longrightarrow>
       py_items (dict_get (decade_counts st) (Scalar VNone)) = Inr dec)"
  let ?dt = "if py_truth lib (decade_counts st) then table_lines lib (ascii '': '') dec else no_data"
  let ?p = "prompt_template
            (py_str_field lib (dict_get (total_books st) (Scalar (VInt 0)))) m
            (py_str_field lib (dict_get (min_age st) (Scalar (VInt 0))))
            (py_str_field lib (dict_get (max_age st) (Scalar (VInt 0)))) md
            (py_str_field lib (dict_get (peak_age st) (Scalar (VStr not_available))))
            (py_str_field lib (dict_get (peak_count st) (Scalar (VInt 0))))
            (table_lines lib sai_colon tp) (table_lines lib (ascii '': '') bands) ?dt ins sty"
  have b: "build_prompt lib st sty ins = Inr ?p"
    using a by (intro build_prompt_success) simp_all
  show "build_prompt lib st sty ins = Inr ?p" by (rule b)
  have t: "\<forall>kv \<in> set tp. sublist (table_line lib sai_colon kv) ?p"
    using table_lines_contains[of _ tp lib sai_colon] template_holes(8) sublist_chain
    by blast
  have g: "\<forall>kv \<in> set bands. sublist (table_line lib (ascii '': '') kv) ?p"
    using table_lines_contains[of _ bands lib "ascii '': ''"] template_holes(9) sublist_chain
    by blast
  have d1: "py_truth lib (decade_counts st) \<longrightarrow>
             (\<forall>kv \<in> set dec. sublist (table_line lib (ascii '': '') kv) ?p)"
  proof (intro impI ballI)
    fix kv assume "py_truth lib (decade_counts st)" "kv \<in> set dec"
    then have "sublist (table_line lib (ascii '': '') kv) ?dt"
      using table_lines_contains[of kv dec lib "ascii '': ''"] by simp
    moreover have "sublist ?dt ?p" by (rule template_holes(10))
    ultimately show "sublist (table_line lib (ascii '': '') kv) ?p"
      by (rule sublist_chain)
  qed
  have d2: "\<not> py_truth lib (decade_counts st) \<longrightarrow> sublist no_data ?p"
  proof
    assume "\<not> py_truth lib (decade_counts st)"
    then have "?dt = no_data" by simp
    moreover have "sublist ?dt ?p" by (rule template_holes(10))
    ultimately show "sublist no_data ?p" by simp
  qed
  show "\<exists>p. build_prompt lib st sty ins = Inr p \<and>
          sublist (py_str_field lib (dict_get (total_books st) (Scalar (VInt 0)))) p \<and>
          sublist m p \<and>
          sublist (py_str_field lib (dict_get (min_age st) (Scalar (VInt 0)))) p \<and>
          sublist (py_str_field lib (dict_get (max_age st) (Scalar (VInt 0)))) p \<and>
          sublist md p \<and>
          sublist (py_str_field lib (dict_get (peak_age st) (Scalar (VStr not_available)))) p \<and>
          sublist (py_str_field lib (dict_get (peak_count st) (Scalar (VInt 0)))) p \<and>
          (\<forall>kv \<in> set tp. sublist (table_line lib sai_colon kv) p) \<and>
          (\<forall>kv \<in> set bands. sublist (table_line lib (ascii '': '') kv) p) \<and>
          (py_truth lib (decade_counts st) \<longrightarrow>
             (\<forall>kv \<in> set dec. sublist (table_line lib (ascii '': '') kv) p)) \<and>
          (\<not> py_truth lib (decade_counts st) \<longrightarrow> sublist no_data p)"
    apply (rule exI[of _ ?p])
    apply (intro conjI)
              apply (rule b)
             apply (rule template_holes(1))
            apply (rule template_holes(2))
           apply (rule template_holes(3))
          apply (rule template_holes(4))
         apply (rule template_holes(5))
        apply (rule template_holes(6))
       apply (rule template_holes(7))
      apply (rule t)
     apply (rule g)
    apply (rule d1)
    apply (rule d2)
    done
next
  show "sublist (py_str_scalar lib (fst kv)) (table_line lib mid kv)"
    by (rule table_line_contains(1))
  show "sublist (py_str_scalar lib (snd kv)) (table_line lib mid kv)"
    by (rule table_line_contains(2))
  show "py_str_field lib (Scalar (VInt i)) = py_str_int i"
    by (simp add: py_str_field_def py_str_scalar_def)
  show "dict_get None d = d" by (simp add: dict_get_def)
  show "prompt_template books mean_text minimum maximum median_text peak peak_books top_text
       band_text decade_text ins sty =
     prompt_intro @ books @ prompt_mean @ mean_text @ prompt_min @ minimum @
     prompt_max @ maximum @ prompt_median @ median_text @ prompt_peak @ peak @
     prompt_peak_count @ peak_books @ prompt_top @ top_text @ prompt_bands @ band_text @
     prompt_decades @ decade_text @ ins @ prompt_outline @ sty"
    by (rule prompt_template_def)
  show "table_lines lib mid tab = join [10] (map (table_line lib mid) tab)"
    by (rule table_lines_def)
  show "table_lines lib mid [] = []" by (simp add: table_lines_def)
  show "table_line lib mid kv =
     ascii ''- '' @ py_str_scalar lib (fst kv) @ mid @ py_str_scalar lib (snd kv) @ satsu"
    by (rule table_line_def)
  show "py_str_field lib (dict_get None (Scalar (VInt 0))) = ascii ''0''"
    by (simp add: dict_get_def py_str_field_def py_str_scalar_def py_str_int_def
        digits_of_nat.simps ascii_def)
  show "py_str_field lib (dict_get None (Scalar (VStr not_available))) = ascii ''N/A''"
    by (simp add: dict_get_def py_str_field_def py_str_scalar_def not_available_def ascii_def)
  show "py_items (dict_get None (Table [])) = Inr []"
    by (simp add: dict_get_def py_items_def)
  show "\<not> py_truth lib None" by (simp add: py_truth_def)
  show "\<not> py_truth lib (Some (Table []))" by (simp add: py_truth_def)
  show "(\<exists>p. build_prompt lib st sty ins = Inr p) =
    ((\<exists>m. fmt_1f lib (dict_get (mean_age st) (Scalar (VInt 0))) = Inr m) \<and>
     (\<exists>md. fmt_1f lib (dict_get (median_age st) (Scalar (VInt 0))) = Inr md) \<and>
     (\<exists>tp. py_items (dict_get (top_ages st) (Table [])) = Inr tp) \<and>
     (\<exists>bands. py_items (dict_get (age_groups st) (Table [])) = Inr bands) \<and>
     (py_truth lib (decade_counts st) \<longrightarrow>
        (\<exists>dec. py_items (dict_get (decade_counts st) (Scalar VNone)) = Inr dec)))"
    by (rule build_prompt_ok_iff)
  show "(\<exists>t. fmt_1f lib v = Inr t) =
    ((\<exists>x. v = Scalar (VFloat x)) \<or> (\<exists>i x. v = Scalar (VInt i) \<and> float_of_int lib i = Inr x))"
    by (rule fmt_1f_ok)
  show "(py_items v = Inr t) = (v = Table t)" by (rule py_items_ok)
next
  assume "float_of_int lib 0 = Inr z"
  then show "\<exists>p. build_prompt lib (aggregate_statistics lib df) sty ins = Inr p"
    by (rule aggregate_builds)
next
  assume "float_of_int lib 0 = Inr z"
  then show "build_prompt lib empty_stats sty ins =
        Inr (prompt_template (ascii ''0'') (format_1f lib z) (ascii ''0'') (ascii ''0'')
               (format_1f lib z) (ascii ''N/A'') (ascii ''0'') [] [] no_data ins sty)"
    by (rule empty_stats_builds)
next
  assume "fmt_1f lib (dict_get (mean_age st) (Scalar (VInt 0))) = Inl e"
  then show "build_prompt lib st sty ins = Inl e" by (rule build_prompt_mean_fails)
next
  assume "fmt_1f lib (dict_get (mean_age st) (Scalar (VInt 0))) = Inr m \<and>
    fmt_1f lib (dict_get (median_age st) (Scalar (VInt 0))) = Inl e"
  then show "build_prompt lib st sty ins = Inl e"
    using build_prompt_median_fails[of lib st m e sty ins] by blast
next
  assume "key \<noteq> [] \<and>
    build_prompt lib st (style_instruction_of ws) (user_insights_section_of ui) = Inl (Exn msg)"
  then show "generate_article_with_gemini lib (Inr (Some key)) generate s st ws ui =
          ((None, Some (error_prefix @ msg)), s)"
    by (simp add: generate_article_with_gemini_def)
qed

text \<open>
  Claim C9, as the code has it. When the call of the backend fails with a message,
  the function returns no article and the error text made of the fixed prefix of
  line 230 followed by that message, unchanged; the backend has been called once
  (it is left in the state after that one call). When the call succeeds, its text
  is returned as the article.
\<close>

theorem generation_error_prefixed:
  "(key \<noteq> [] \<and>
    build_prompt lib st (style_instruction_of ws) (user_insights_section_of ui) = Inr p \<and>
    generate s p = (Inl (Exn msg), s')
    \<longrightarrow> generate_article_with_gemini lib (Inr (Some key)) generate s st ws ui =
          ((None, Some (error_prefix @ msg)), s')) \<and>
   (key \<noteq> [] \<and>
    build_prompt lib st (style_instruction_of ws) (user_insights_section_of ui) = Inr p \<and>
    generate s p = (Inr article, s')
    \<longrightarrow> generate_article_with_gemini lib (Inr (Some key)) generate s st ws ui =
          ((Some article, None), s'))"
  by (simp add: generate_article_with_gemini_def)

lemma zero_1f: "float_1f (nearest_double 0, 0) = ascii ''0.0''"
  by (simp add: float_1f_def nearest_double_def round_to_53_bits_def round_half_even_def
      tenths_text_def py_str_int_def digits_of_nat.simps ascii_def)

lemma empty_stats_prompt:
  "build_prompt (sample_runtime f) empty_stats sty ins =
     Inr (prompt_template (ascii ''0'') (ascii ''0.0'') (ascii ''0'') (ascii ''0'') (ascii ''0.0'')
            not_available (ascii ''0'') [] [] no_data ins sty)"
proof -
  have z: "py_str_int 0 = ascii ''0''" by (simp add: py_str_int_def digits_of_nat.simps ascii_def)
  show ?thesis
    by (simp add: build_prompt_def bind_exn_def empty_stats_def dict_get_def fmt_1f_def
        sample_runtime_def py_items_def py_truth_def py_str_field_def py_str_scalar_def
        table_lines_def z zero_1f)
qed

theorem generation_error_prefixed_witness:
  "generate_article_with_gemini (sample_runtime stable_argsort_desc) (Inr (Some (ascii ''k'')))
     failing_once 0 empty_stats style_standard [] =
   ((None, Some (error_prefix @ ascii ''quota exceeded'')), Suc 0)"
proof -
  let ?p = "prompt_template (ascii ''0'') (ascii ''0.0'') (ascii ''0'') (ascii ''0'') (ascii ''0.0'')
      not_available (ascii ''0'') [] [] no_data (user_insights_section_of [])
      (style_instruction_of style_standard)"
  have 1: "ascii ''k'' \<noteq> []" by (simp add: ascii_def)
  have 2: "build_prompt (sample_runtime stable_argsort_desc) empty_stats
      (style_instruction_of style_standard) (user_insights_section_of []) = Inr ?p"
    by (rule empty_stats_prompt)
  have 3: "failing_once 0 ?p = (Inl (Exn (ascii ''quota exceeded'')), Suc 0)"
    by (simp add: failing_once_def)
  from generation_error_prefixed[where key = "ascii ''k''" and lib = "sample_runtime stable_argsort_desc"
      and st = empty_stats and ws = style_standard and ui = "[]" and p = ?p
      and generate = failing_once and s = 0 and msg = "ascii ''quota exceeded''" and s' = "Suc 0",
      THEN conjunct1, THEN mp, OF conjI[OF 1 conjI[OF 2 3]]]
  show ?thesis .
qed

text \<open>
  Claim C9 as it is stated fails: the returned error text is not the message of
  the backend, it is the prefix followed by the message.
\<close>

theorem error_text_is_prefixed:
  "snd (fst (generate_article_with_gemini (sample_runtime stable_argsort_desc)
      (Inr (Some (ascii ''k''))) failing_once 0 empty_stats style_standard [])) =
     Some (error_prefix @ ascii ''quota exceeded'') \<and>
   error_prefix @ ascii ''quota exceeded'' \<noteq> ascii ''quota exceeded''"
proof -
  have 1: "ascii ''k'' \<noteq> []" by (simp add: ascii_def)
  have "generate_article_with_gemini (sample_runtime stable_argsort_desc)
      (Inr (Some (ascii ''k''))) failing_once 0 empty_stats style_standard [] =
     ((None, Some (error_prefix @ ascii ''quota exceeded'')), Suc 0)"
    using 1 by (simp add: generate_article_with_gemini_def empty_stats_prompt failing_once_def)
  moreover have "error_prefix @ ascii ''quota exceeded'' \<noteq> ascii ''quota exceeded''"
    by (simp add: error_prefix_def ascii_def)
  ultimately show ?thesis by simp
qed

text \<open>
  Claim C8 as it is stated fails twice. For the summary with no key the peak age
  is rendered as N/A, not as a zero; and a summary whose mean is the string abc
  makes the \<open>.1f\<close> format raise, so that no prompt is built and the function
  returns the error text.
\<close>

theorem missing_peak_and_malformed_mean:
  "build_prompt (sample_runtime stable_argsort_desc) empty_stats instruction_standard [] =
     Inr (prompt_template (ascii ''0'') (ascii ''0.0'') (ascii ''0'') (ascii ''0'') (ascii ''0.0'')
            (ascii ''N/A'') (ascii ''0'') [] [] no_data [] instruction_standard) \<and>
   build_prompt (sample_runtime stable_argsort_desc)
     (empty_stats\<lparr>mean_age := Some (Scalar (VStr (ascii ''abc'')))\<rparr>) instruction_standard [] =
     Inl (Exn (ascii ''Unknown format code 'f' for object of type 'str'' @ [39])) \<and>
   generate_article_with_gemini (sample_runtime stable_argsort_desc) (Inr (Some (ascii ''k'')))
     failing_once 0 (empty_stats\<lparr>mean_age := Some (Scalar (VStr (ascii ''abc'')))\<rparr>)
     style_standard [] =
     ((None, Some (error_prefix @ ascii ''Unknown format code 'f' for object of type 'str'' @ [39])), 0)"
proof -
  have n: "not_available = ascii ''N/A''" by (simp add: not_available_def ascii_def)
  have 1: "ascii ''k'' \<noteq> []" by (simp add: ascii_def)
  have b: "build_prompt (sample_runtime stable_argsort_desc)
     (empty_stats\<lparr>mean_age := Some (Scalar (VStr (ascii ''abc'')))\<rparr>) sty ins =
     Inl (Exn (ascii ''Unknown format code 'f' for object of type 'str'' @ [39]))" for sty ins
    by (simp add: build_prompt_def bind_exn_def empty_stats_def dict_get_def fmt_1f_def)
  show ?thesis
    using 1 by (simp add: empty_stats_prompt n[symmetric] b generate_article_with_gemini_def)
qed

lemma sample_mean_text: "float_1f (float_mean [13, 13, 15, 20]) = ascii ''15.2''"
  by (simp add: float_1f_def float_mean_def float_quotient_def round_half_even_def
      bit_length.simps Let_def tenths_text_def py_str_int_def digits_of_nat.simps ascii_def)

lemma sample_median_text: "float_1f (float_median [13, 13, 15, 20]) = ascii ''14.0''"
  by (simp add: float_1f_def float_median_def round_half_even_def Let_def
      tenths_text_def py_str_int_def digits_of_nat.simps ascii_def)

theorem prompt_renders_summary_witness:
  "build_prompt (sample_runtime stable_argsort_desc)
          (aggregate_statistics (sample_runtime stable_argsort_desc)
             \<lparr>age_col = [Some 13, Some 13, Some 15, Some 20], decade_col = None\<rparr>)
          instruction_standard [] =
     Inr (prompt_template (ascii ''4'') (ascii ''15.2'') (ascii ''13'') (ascii ''20'')
            (ascii ''14.0'') (ascii ''13'') (ascii ''2'')
            (table_lines (sample_runtime stable_argsort_desc) sai_colon
               [(VInt 13, VInt 2), (VInt 15, VInt 1), (VInt 20, VInt 1)])
            (table_lines (sample_runtime stable_argsort_desc) (ascii '': '')
               (map (\<lambda>(l, c). (VStr l, VInt (int c)))
                  (age_groups_of [Some 13, Some 13, Some 15, Some 20])))
            no_data [] instruction_standard) \<and>
   (\<exists>p. build_prompt (sample_runtime stable_argsort_desc)
          (aggregate_statistics (sample_runtime stable_argsort_desc)
             \<lparr>age_col = [Some 13, Some 13, Some 15, Some 20], decade_col = None\<rparr>)
          instruction_standard [] = Inr p \<and>
        sublist (ascii ''4'') p \<and> sublist (ascii ''15.2'') p \<and> sublist (ascii ''13'') p \<and>
        sublist (ascii ''20'') p \<and> sublist (ascii ''14.0'') p \<and>
        sublist (ascii ''- 13'' @ sai_colon @ ascii ''2'' @ satsu) p \<and>
        sublist (ascii ''- 10-19'' @ sai @ ascii '': 3'' @ satsu) p \<and>
        sublist no_data p)"
proof -
  let ?lib = "sample_runtime stable_argsort_desc"
  let ?st = "aggregate_statistics ?lib \<lparr>age_col = [Some 13, Some 13, Some 15, Some 20], decade_col = None\<rparr>"
  let ?tp = "[(VInt 13, VInt 2), (VInt 15, VInt 1), (VInt 20, VInt 1)] :: ((int \<times> int) scalar \<times> (int \<times> int) scalar) list"
  let ?bands = "map (\<lambda>(l, c). (VStr l, VInt (int c))) (age_groups_of [Some 13, Some 13, Some 15, Some 20])
     :: ((int \<times> int) scalar \<times> (int \<times> int) scalar) list"
  have 1: "fmt_1f ?lib (dict_get (mean_age ?st) (Scalar (VInt 0))) = Inr (ascii ''15.2'')"
    by (simp add: aggregate_statistics_def Let_def dict_get_def fmt_1f_def sample_runtime_def
        sample_mean_text)
  have 2: "fmt_1f ?lib (dict_get (median_age ?st) (Scalar (VInt 0))) = Inr (ascii ''14.0'')"
    by (simp add: aggregate_statistics_def Let_def dict_get_def fmt_1f_def sample_runtime_def
        sample_median_text)
  have 3: "py_items (dict_get (top_ages ?st) (Table [])) = Inr ?tp"
    by (simp add: aggregate_statistics_def Let_def dict_get_def py_items_def int_table_def
        age_counts_stable_example)
  have 4: "py_items (dict_get (age_groups ?st) (Table [])) = Inr ?bands"
    by (simp add: aggregate_statistics_def Let_def dict_get_def py_items_def str_table_def)
  have 5: "\<not> py_truth ?lib (decade_counts ?st)"
    by (simp add: aggregate_statistics_def Let_def py_truth_def)
  have 6: "py_str_field ?lib (dict_get (total_books ?st) (Scalar (VInt 0))) = ascii ''4''"
    by (simp add: aggregate_statistics_def Let_def dict_get_def
        py_str_int_def digits_of_nat.simps ascii_def py_str_field_def py_str_scalar_def)
  have 7: "py_str_field ?lib (dict_get (min_age ?st) (Scalar (VInt 0))) = ascii ''13''"
    by (simp add: aggregate_statistics_def Let_def dict_get_def
        py_str_int_def digits_of_nat.simps ascii_def py_str_field_def py_str_scalar_def)
  have 8: "py_str_field ?lib (dict_get (max_age ?st) (Scalar (VInt 0))) = ascii ''20''"
    by (simp add: aggregate_statistics_def Let_def dict_get_def
        py_str_int_def digits_of_nat.simps ascii_def py_str_field_def py_str_scalar_def)
  have pa: "py_str_field ?lib (dict_get (peak_age ?st) (Scalar (VStr not_available))) = ascii ''13''"
    by (simp add: aggregate_statistics_def Let_def dict_get_def age_counts_stable_example
        py_str_int_def digits_of_nat.simps ascii_def py_str_field_def py_str_scalar_def)
  have pb: "py_str_field ?lib (dict_get (peak_count ?st) (Scalar (VInt 0))) = ascii ''2''"
    by (simp add: aggregate_statistics_def Let_def dict_get_def age_counts_stable_example
        py_str_int_def digits_of_nat.simps ascii_def py_str_field_def py_str_scalar_def)
  have 9: "(VInt 13, VInt 2) \<in> set ?tp" by simp
  have 10: "table_line ?lib sai_colon (VInt 13, VInt 2) = ascii ''- 13'' @ sai_colon @ ascii ''2'' @ satsu"
    by (simp add: py_str_int_def digits_of_nat.simps ascii_def py_str_scalar_def table_line_def)
  have 11: "(VStr (ascii ''10-19'' @ sai), VInt 3) \<in> set ?bands"
    by (simp add: age_groups_of_def in_band_def at_least_def)
  have 12: "table_line ?lib (ascii '': '') (VStr (ascii ''10-19'' @ sai), VInt 3) =
      ascii ''- 10-19'' @ sai @ ascii '': 3'' @ satsu"
    by (simp add: py_str_int_def digits_of_nat.simps ascii_def py_str_scalar_def table_line_def)
  note t = prompt_renders_summary[where lib = ?lib and st = ?st and m = "ascii ''15.2''"
      and md = "ascii ''14.0''" and tp = ?tp and bands = ?bands and dec = "[]"
      and sty = instruction_standard and ins = "[]", THEN conjunct1, THEN mp,
      OF conjI[OF 1 conjI[OF 2 conjI[OF 3 conjI[OF 4]]]]]
  have h: "py_truth ?lib (decade_counts ?st) \<longrightarrow>
       py_items (dict_get (decade_counts ?st) (Scalar VNone)) = Inr []"
    using 5 by simp
  from t[OF h, THEN conjunct1] 5
  have e: "build_prompt ?lib ?st instruction_standard [] =
     Inr (prompt_template (ascii ''4'') (ascii ''15.2'') (ascii ''13'') (ascii ''20'')
            (ascii ''14.0'') (ascii ''13'') (ascii ''2'')
            (table_lines ?lib sai_colon ?tp) (table_lines ?lib (ascii '': '') ?bands)
            no_data [] instruction_standard)"
    unfolding 6 7 8 pa pb by simp
  from t[OF h, THEN conjunct2] 5
  obtain p where p: "build_prompt ?lib ?st instruction_standard [] = Inr p"
    "sublist (py_str_field ?lib (dict_get (total_books ?st) (Scalar (VInt 0)))) p"
    "sublist (ascii ''15.2'') p"
    "sublist (py_str_field ?lib (dict_get (min_age ?st) (Scalar (VInt 0)))) p"
    "sublist (py_str_field ?lib (dict_get (max_age ?st) (Scalar (VInt 0)))) p"
    "sublist (ascii ''14.0'') p"
    "\<forall>kv \<in> set ?tp. sublist (table_line ?lib sai_colon kv) p"
    "\<forall>kv \<in> set ?bands. sublist (table_line ?lib (ascii '': '') kv) p"
    "sublist no_data p"
    by blast
  from p(7) 9 have a: "sublist (table_line ?lib sai_colon (VInt 13, VInt 2)) p" by blast
  from p(8) 11 have b: "sublist (table_line ?lib (ascii '': '') (VStr (ascii ''10-19'' @ sai), VInt 3)) p"
    by blast
  have x: "\<exists>p. build_prompt ?lib ?st instruction_standard [] = Inr p \<and>
        sublist (ascii ''4'') p \<and> sublist (ascii ''15.2'') p \<and> sublist (ascii ''13'') p \<and>
        sublist (ascii ''20'') p \<and> sublist (ascii ''14.0'') p \<and>
        sublist (ascii ''- 13'' @ sai_colon @ ascii ''2'' @ satsu) p \<and>
        sublist (ascii ''- 10-19'' @ sai @ ascii '': 3'' @ satsu) p \<and>
        sublist no_data p"
    apply (rule exI[of _ p])
    using p(1,2,3,4,5,6,9) a b unfolding 6 7 8 10 12
    by simp
  from e x show ?thesis by (rule conjI)
qed

end
